theory Spec2Isabelle
  imports Main "HOL-Library.AList"
begin

section \<open>JavaScript values and strings\<close>

text \<open>
  The values that flow through targeting: context values and the elements of rule
  arrays. \<open>toString\<close> is JavaScript's \<open>String(v)\<close> on these primitives. Numbers are
  the integers; strings are byte lists and \<open>toLowerCase\<close> lower-cases the ASCII letters.
\<close>

datatype jsval = JUndefined | JNull | JBool bool | JNum int | JStr string

definition toLowerChar :: "char \<Rightarrow> char" where
  "toLowerChar c =
     (case map_of (zip ''ABCDEFGHIJKLMNOPQRSTUVWXYZ'' ''abcdefghijklmnopqrstuvwxyz'') c of
        Some l \<Rightarrow> l
      | None \<Rightarrow> c)"

definition toLowerCase :: "string \<Rightarrow> string" where
  "toLowerCase s = map toLowerChar s"

fun digits_of :: "nat \<Rightarrow> string" where
  "digits_of n =
     (if n < 10 then [''0123456789'' ! n]
      else digits_of (n div 10) @ [''0123456789'' ! (n mod 10)])"

declare digits_of.simps [simp del]

fun toString :: "jsval \<Rightarrow> string" where
  "toString JUndefined = ''undefined''"
| "toString JNull = ''null''"
| "toString (JBool b) = (if b then ''true'' else ''false'')"
| "toString (JNum i) = (if i < 0 then ''-'' @ digits_of (nat (- i)) else digits_of (nat i))"
| "toString (JStr s) = s"

text \<open>\<open>s.startsWith(r)\<close> and \<open>s.includes(r)\<close> on strings.\<close>

fun startsWith :: "string \<Rightarrow> string \<Rightarrow> bool" where
  "startsWith s [] = True"
| "startsWith [] (r # rs) = False"
| "startsWith (c # cs) (r # rs) = (c = r \<and> startsWith cs rs)"

fun str_includes :: "string \<Rightarrow> string \<Rightarrow> bool" where
  "str_includes [] r = (r = [])"
| "str_includes (c # cs) r = (startsWith (c # cs) r \<or> str_includes cs r)"

text \<open>\<open>xs.indexOf(v)\<close> on arrays: the first position of \<open>v\<close>, or \<open>-1\<close>.\<close>

fun indexOf :: "'a list \<Rightarrow> 'a \<Rightarrow> int" where
  "indexOf [] v = - 1"
| "indexOf (x # xs) v =
     (if x = v then 0 else (let i = indexOf xs v in if i < 0 then - 1 else i + 1))"

text \<open>A string is truthy when it is present and not empty.\<close>

fun truthy :: "string option \<Rightarrow> bool" where
  "truthy None = False"
| "truthy (Some s) = (s \<noteq> [])"


section \<open>Targeting (src/targeting.js)\<close>

text \<open>
  \<open>matchesRule(value, rules, matchType)\<close>. An absent rule array is \<open>None\<close>. The match
  type is the string the source switches on; every string other than
  \<open>startsWith\<close> and \<open>includes\<close> takes the default branch.
\<close>

definition matchesRule :: "jsval \<Rightarrow> jsval list option \<Rightarrow> string \<Rightarrow> bool" where
  "matchesRule v rules matchType =
     (case rules of
        None \<Rightarrow> True
      | Some rs \<Rightarrow>
          if rs = [] then True
          else if indexOf rs (JStr ''all'') = 0 \<or> JStr ''all'' \<in> set rs then True
          else
            (let normalizedValue = toLowerCase (toString v) in
             if matchType = ''startsWith'' then
               list_ex (\<lambda>rule. startsWith normalizedValue (toLowerCase (toString rule))) rs
             else if matchType = ''includes'' then
               list_ex (\<lambda>rule. str_includes normalizedValue (toLowerCase (toString rule))) rs
             else
               list_ex (\<lambda>rule. normalizedValue = toLowerCase (toString rule)) rs))"

definition isExcluded :: "jsval \<Rightarrow> jsval list option \<Rightarrow> string \<Rightarrow> bool" where
  "isExcluded v rules matchType =
     (case rules of
        None \<Rightarrow> False
      | Some rs \<Rightarrow>
          if rs = [] then False
          else
            (let normalizedValue = toLowerCase (toString v) in
             if matchType = ''startsWith'' then
               list_ex (\<lambda>rule. startsWith normalizedValue (toLowerCase (toString rule))) rs
             else if matchType = ''includes'' then
               list_ex (\<lambda>rule. str_includes normalizedValue (toLowerCase (toString rule))) rs
             else
               list_ex (\<lambda>rule. normalizedValue = toLowerCase (toString rule)) rs))"

text \<open>
  \<open>matchesDomain(domains, currentDomain)\<close>. The third argument is
  \<open>window.location.host\<close>, \<open>None\<close> where there is no \<open>window\<close>. An absent or empty
  \<open>currentDomain\<close> falls back to it.
\<close>

definition matchesDomain :: "string list option \<Rightarrow> string option \<Rightarrow> string option \<Rightarrow> bool" where
  "matchesDomain domains currentDomain windowHost =
     (case domains of
        None \<Rightarrow> True
      | Some ds \<Rightarrow>
          if ds = [] then True
          else
            (let windowLocationHost = (case windowHost of Some h \<Rightarrow> h | None \<Rightarrow> []);
                 host = (case currentDomain of
                           Some d \<Rightarrow> if d \<noteq> [] then d else windowLocationHost
                         | None \<Rightarrow> windowLocationHost) in
             if ''all'' \<in> set ds then True
             else host \<in> set ds))"

text \<open>
  A \<open>special\<close> predicate is user code without arguments; it is modelled by what one
  call of it does: it returns a value or it throws.
\<close>

datatype call_result = Returns jsval | Throws

text \<open>
  An \<open>include\<close> or \<open>exclude\<close> object: the \<open>special\<close> property when it is a function
  (\<open>None\<close> otherwise) and the rule arrays by dimension name. Rule sets are arrays;
  the property \<open>special\<close> is not one of them.
\<close>

record targeting =
  special :: "call_result option"
  rules :: "string \<rightharpoonup> jsval list"

definition empty_targeting :: targeting where
  "empty_targeting = \<lparr>special = None, rules = Map.empty\<rparr>"

record targeting_result =
  matched :: bool
  reason :: string

text \<open>
  The loop of step 3 over \<open>Object.keys(context)\<close>; the context is the list of its
  entries in key order. \<open>dimensionConfig\<close> gives the \<open>matchType\<close> string of a dimension
  where it has one.
\<close>

fun evaluateDimensions ::
  "targeting \<Rightarrow> targeting \<Rightarrow> (string \<rightharpoonup> string) \<Rightarrow> (string \<times> jsval) list \<Rightarrow> targeting_result"
where
  "evaluateDimensions inc exc dimensionConfig [] =
     \<lparr>matched = True, reason = ''All targeting rules passed''\<rparr>"
| "evaluateDimensions inc exc dimensionConfig ((dimension, currentValue) # rest) =
     (let matchType = (case dimensionConfig dimension of
                         None \<Rightarrow> ''exact''
                       | Some mt \<Rightarrow> if mt = [] then ''exact'' else mt) in
      if (case rules exc dimension of None \<Rightarrow> False | Some rs \<Rightarrow> rs \<noteq> [])
         \<and> isExcluded currentValue (rules exc dimension) matchType
      then \<lparr>matched = False,
            reason = ''Excluded by '' @ dimension @ '': '' @ toString currentValue\<rparr>
      else if (case rules inc dimension of None \<Rightarrow> False | Some rs \<Rightarrow> rs \<noteq> [])
              \<and> \<not> matchesRule currentValue (rules inc dimension) matchType
      then \<lparr>matched = False,
            reason = ''Not included by '' @ dimension @ '': '' @ toString currentValue\<rparr>
      else evaluateDimensions inc exc dimensionConfig rest)"

definition evaluateTargeting ::
  "targeting \<Rightarrow> targeting \<Rightarrow> (string \<times> jsval) list \<Rightarrow> (string \<rightharpoonup> string) \<Rightarrow> targeting_result"
where
  "evaluateTargeting inc exc context dimensionConfig =
     (if special exc = Some (Returns (JBool True))
      then \<lparr>matched = False, reason = ''Excluded by special function''\<rparr>
      else if special inc = Some (Returns (JBool True))
      then \<lparr>matched = True, reason = ''Included by special function''\<rparr>
      else evaluateDimensions inc exc dimensionConfig context)"

text \<open>
  \<open>normalizeTargetingConfig\<close>, one side at a time: a missing \<open>special\<close> becomes the
  function that returns \<open>false\<close>, a missing object the object with that function only.
\<close>

definition normalizeTargeting :: "targeting option \<Rightarrow> targeting" where
  "normalizeTargeting t =
     (case t of
        None \<Rightarrow> \<lparr>special = Some (Returns (JBool False)), rules = Map.empty\<rparr>
      | Some c \<Rightarrow>
          c\<lparr>special := (case special c of
                            None \<Rightarrow> Some (Returns (JBool False))
                          | Some f \<Rightarrow> Some f)\<rparr>)"

definition normalizeTargetingConfig ::
  "targeting option \<Rightarrow> targeting option \<Rightarrow> targeting \<times> targeting"
where
  "normalizeTargetingConfig inc exc = (normalizeTargeting inc, normalizeTargeting exc)"


section \<open>Timing (src/timer.js)\<close>

datatype status = Init | Requested | Loaded | Error | Timeout | Inactive | Ignore

record perf =
  perf_status :: status
  perf_init :: int
  perf_requested :: int
  perf_received :: int
  perf_preload :: int
  perf_error :: int
  perf_timeout :: int
  perf_latency :: int

text \<open>\<open>createPerformanceTracker\<close> and \<open>calculateLatency\<close>, given the reading of \<open>timer()\<close>.\<close>

definition createPerformanceTracker :: "int \<Rightarrow> perf" where
  "createPerformanceTracker now =
     \<lparr>perf_status = Init, perf_init = now, perf_requested = 0, perf_received = 0,
      perf_preload = 0, perf_error = - 1, perf_timeout = - 1, perf_latency = 0\<rparr>"

definition calculateLatency :: "int \<Rightarrow> perf \<Rightarrow> int" where
  "calculateLatency now pf = now - perf_init pf"


section \<open>Plugin descriptors (src/index.js, normalizePluginConfig)\<close>

text \<open>
  A lifecycle hook is user code; it is modelled by whether a call of it returns or
  throws. The source calls the hooks outside any \<open>try\<close>, so a throwing hook ends the
  function that called it.
\<close>

datatype hook = HookReturns | HookThrows

record script =
  script_type :: string
  script_id :: string
  script_async :: bool
  script_attributes :: "(string \<times> string) list"
  script_src :: "string option"

record plugin =
  name :: string
  plugin_id :: string
  url :: "string option"
  plugin_type :: string
  active :: bool
  async :: bool
  location :: string
  timeout :: int
  domains :: "string list"
  consentState :: "string list"
  p_include :: targeting
  p_exclude :: targeting
  attributes :: "(string \<times> string) list"
  preloadFn :: hook
  onloadFn :: hook
  onerrorFn :: hook
  timeoutFn :: hook
  ignoreFn :: hook
  performance :: perf
  eventTitle :: string
  tag :: "script option"
  timeoutProc :: "nat option"
  status :: status

text \<open>The configuration object a caller passes to \<open>load\<close> or \<open>register\<close>.\<close>

record plugin_config =
  c_name :: string
  c_id :: "string option"
  c_url :: "string option"
  c_type :: "string option"
  c_active :: "bool option"
  c_async :: "bool option"
  c_location :: "string option"
  c_timeout :: "int option"
  c_domains :: "string list option"
  c_consentState :: "string list option"
  c_consent :: "string list option"
  c_include :: "targeting option"
  c_exclude :: "targeting option"
  c_attributes :: "(string \<times> string) list option"
  c_preloadFn :: "hook option"
  c_preload :: "hook option"
  c_onloadFn :: "hook option"
  c_onload :: "hook option"
  c_onerrorFn :: "hook option"
  c_onerror :: "hook option"
  c_timeoutFn :: "hook option"
  c_ontimeout :: "hook option"
  c_ignoreFn :: "hook option"
  c_onignore :: "hook option"
  c_status :: "status option"

text \<open>\<open>a || b || (() => {})\<close> on two optional hooks.\<close>

definition hook_or :: "hook option \<Rightarrow> hook option \<Rightarrow> hook" where
  "hook_or a b =
     (case a of Some h \<Rightarrow> h | None \<Rightarrow> (case b of Some h \<Rightarrow> h | None \<Rightarrow> HookReturns))"

definition normalizePluginConfig :: "string \<Rightarrow> int \<Rightarrow> plugin_config \<Rightarrow> plugin" where
  "normalizePluginConfig prefix timer config =
     \<lparr>name = c_name config,
      plugin_id = (case c_id config of
                     Some i \<Rightarrow> if i \<noteq> [] then i else c_name config
                   | None \<Rightarrow> c_name config),
      url = c_url config,
      plugin_type = (case c_type config of
                       Some t \<Rightarrow> if t \<noteq> [] then t else ''js''
                     | None \<Rightarrow> ''js''),
      active = (c_active config \<noteq> Some False),
      async = (c_async config \<noteq> Some False),
      location = toLowerCase (case c_location config of
                                Some l \<Rightarrow> if l \<noteq> [] then l else ''body''
                              | None \<Rightarrow> ''body''),
      timeout = (case c_timeout config of
                   Some t \<Rightarrow> if t \<noteq> 0 then t else 3000
                 | None \<Rightarrow> 3000),
      domains = (case c_domains config of Some d \<Rightarrow> d | None \<Rightarrow> [''all'']),
      consentState = (case c_consentState config of
                        Some cs \<Rightarrow> cs
                      | None \<Rightarrow> (case c_consent config of Some cs \<Rightarrow> cs | None \<Rightarrow> [''all''])),
      p_include = (case c_include config of Some t \<Rightarrow> t | None \<Rightarrow> empty_targeting),
      p_exclude = (case c_exclude config of Some t \<Rightarrow> t | None \<Rightarrow> empty_targeting),
      attributes = (case c_attributes config of Some a \<Rightarrow> a | None \<Rightarrow> []),
      preloadFn = hook_or (c_preloadFn config) (c_preload config),
      onloadFn = hook_or (c_onloadFn config) (c_onload config),
      onerrorFn = hook_or (c_onerrorFn config) (c_onerror config),
      timeoutFn = hook_or (c_timeoutFn config) (c_ontimeout config),
      ignoreFn = hook_or (c_ignoreFn config) (c_onignore config),
      performance = createPerformanceTracker timer,
      eventTitle = prefix @ ''.'' @ c_name config,
      tag = None,
      timeoutProc = None,
      status = (case c_status config of Some st \<Rightarrow> st | None \<Rightarrow> Init)\<rparr>"


section \<open>Experiments (src/experiments.js)\<close>

text \<open>
  An experiment's \<open>apply\<close> function mutates the descriptor it is given. One call either
  returns or throws, and in both cases leaves the descriptor as it has changed it so far.
\<close>

datatype apply_result = Applied plugin | ApplyThrew plugin

record registered_experiment =
  exp_id :: string
  exp_active :: bool
  testRange :: "int \<times> int"
  exp_plugin :: "string option"
  exp_include :: "targeting option"
  exp_exclude :: "targeting option"
  exp_apply :: "plugin \<Rightarrow> apply_result"

record experiment_config =
  ec_id :: "string option"
  ec_active :: "bool option"
  ec_testRange :: "(int \<times> int) option"
  ec_plugin :: "string option"
  ec_include :: "targeting option"
  ec_exclude :: "targeting option"
  ec_apply :: "(plugin \<Rightarrow> apply_result) option"

text \<open>
  The manager. \<open>registry\<close> is the object keyed by experiment id, as the list of its
  entries in the order \<open>Object.entries\<close> gives them; \<open>getContext\<close> is what a call of the
  configured context function returns. \<open>register\<close> keeps the order of registration,
  which is the order of \<open>Object.entries\<close> for ids that are not written like
  integers; the statements on the loop take the list of entries as it is given.
\<close>

record manager =
  mgr_active :: bool
  testgroup :: int
  getContext :: "(string \<times> jsval) list"
  mgr_dimensionConfig :: "string \<rightharpoonup> string"
  registry :: "(string \<times> registered_experiment) list"
  applied :: "string list"
  eligible :: "string list"

text \<open>
  The constructor of the manager, \<open>new ExperimentManager(config)\<close>; \<open>drawn\<close> is the
  bucket that \<open>Math.floor(Math.random() * 100)\<close> gives where no \<open>testgroup\<close> is
  configured.
\<close>

definition new_manager ::
  "bool option \<Rightarrow> int option \<Rightarrow> int \<Rightarrow> (string \<times> jsval) list \<Rightarrow> (string \<rightharpoonup> string) \<Rightarrow> manager"
where
  "new_manager act tg drawn ctx dc =
     \<lparr>mgr_active = (act \<noteq> Some False),
      testgroup = (case tg of Some g \<Rightarrow> g | None \<Rightarrow> drawn),
      getContext = ctx, mgr_dimensionConfig = dc,
      registry = [], applied = [], eligible = []\<rparr>"

text \<open>\<open>register\<close> returns the flag together with the manager.\<close>

definition register_experiment :: "experiment_config \<Rightarrow> manager \<Rightarrow> bool \<times> manager" where
  "register_experiment c m =
     (if \<not> truthy (ec_id c) then (False, m)
      else
        (let i = (case ec_id c of Some x \<Rightarrow> x | None \<Rightarrow> []) in
         (True,
          m\<lparr>registry :=
              AList.update i
                \<lparr>exp_id = i,
                 exp_active = (ec_active c \<noteq> Some False),
                 testRange = (case ec_testRange c of Some tr \<Rightarrow> tr | None \<Rightarrow> (0, 99)),
                 exp_plugin = (if truthy (ec_plugin c) then ec_plugin c else None),
                 exp_include = Some (case ec_include c of Some t \<Rightarrow> t | None \<Rightarrow> empty_targeting),
                 exp_exclude = Some (case ec_exclude c of Some t \<Rightarrow> t | None \<Rightarrow> empty_targeting),
                 exp_apply = (case ec_apply c of Some f \<Rightarrow> f | None \<Rightarrow> Applied)\<rparr>
                (registry m)\<rparr>)))"

definition unregister :: "string \<Rightarrow> manager \<Rightarrow> manager" where
  "unregister i m = m\<lparr>registry := AList.delete i (registry m)\<rparr>"

definition isInExperiment :: "manager \<Rightarrow> string \<Rightarrow> bool" where
  "isInExperiment m i =
     (if \<not> mgr_active m then False
      else
        (case map_of (registry m) i of
           None \<Rightarrow> False
         | Some e \<Rightarrow>
             if \<not> exp_active e then False
             else (case testRange e of (mn, mx) \<Rightarrow> testgroup m \<ge> mn \<and> testgroup m \<le> mx)))"

definition targetingMatches :: "manager \<Rightarrow> registered_experiment \<Rightarrow> bool" where
  "targetingMatches m e =
     (if exp_include e = None \<and> exp_exclude e = None then True
      else
        (case normalizeTargetingConfig (exp_include e) (exp_exclude e) of
           (inc, exc) \<Rightarrow>
             matched (evaluateTargeting inc exc (getContext m) (mgr_dimensionConfig m))))"

text \<open>
  The body of the loop of \<open>apply(pluginName, pluginConfig)\<close> for one registry entry, on
  the manager and the descriptor, and the loop over the entries.
\<close>

definition apply_entry ::
  "string option \<Rightarrow> string \<times> registered_experiment \<Rightarrow> manager \<times> plugin \<Rightarrow> manager \<times> plugin"
where
  "apply_entry pluginName entry st =
     (case entry of (i, e) \<Rightarrow>
      case st of (m, pluginConfig) \<Rightarrow>
        (let isMatch = (if truthy pluginName then exp_plugin e = pluginName
                        else \<not> truthy (exp_plugin e)) in
         if exp_active e \<and> isMatch then
           if targetingMatches m e then
             if isInExperiment m i then
               (case exp_apply e pluginConfig of
                  Applied p' \<Rightarrow> (m\<lparr>applied := applied m @ [i]\<rparr>, p')
                | ApplyThrew p' \<Rightarrow> (m, p'))
             else (m\<lparr>eligible := eligible m @ [i]\<rparr>, pluginConfig)
           else (m, pluginConfig)
         else (m, pluginConfig)))"

fun apply_entries ::
  "string option \<Rightarrow> (string \<times> registered_experiment) list \<Rightarrow> manager \<times> plugin \<Rightarrow> manager \<times> plugin"
where
  "apply_entries pluginName [] st = st"
| "apply_entries pluginName (entry # rest) st =
     apply_entries pluginName rest (apply_entry pluginName entry st)"

definition experiments_apply :: "manager \<Rightarrow> string option \<Rightarrow> plugin \<Rightarrow> manager \<times> plugin" where
  "experiments_apply m pluginName pluginConfig =
     (if \<not> mgr_active m then (m, pluginConfig)
      else apply_entries pluginName (registry m) (m, pluginConfig))"

definition reset :: "manager \<Rightarrow> manager" where
  "reset m = m\<lparr>applied := [], eligible := []\<rparr>"

definition clear :: "manager \<Rightarrow> manager" where
  "clear m = reset (m\<lparr>registry := []\<rparr>)"


section \<open>The loader (src/index.js)\<close>

text \<open>
  What the loader finds in \<open>window\<close>: the host, and the values
  \<open>URLSearchParams.get\<close> gives for the two override parameters.
\<close>

record window =
  host :: string
  pluginEnable :: "string option"
  pluginDisable :: "string option"

text \<open>A dimension is a value or a function; a call of the function returns or throws.\<close>

datatype dimension = DimValue jsval | DimFn call_result

text \<open>
  What a load resolves its promise with; \<open>res_performance\<close> is the descriptor's
  performance record as it is at that moment.
\<close>

record load_result =
  res_status :: status
  res_name :: string
  res_reason :: "string option"
  res_error :: "jsval option"
  res_performance :: perf

text \<open>
  What the loader does to the world outside it, in the order it does it: events
  published on the bus (topic, name, event, reason), promises resolved or rejected,
  hooks called (hook, plugin name), timers armed (timer, descriptor, promise, delay)
  and cleared, script elements appended (location, element, descriptor, promise).
\<close>

datatype effect =
    Published string string string "string option"
  | Resolved nat load_result
  | Rejected nat
  | HookCalled string string
  | TimerSet nat nat nat int
  | TimerCleared "nat option"
  | ScriptAppended string script nat nat

text \<open>
  The loader object and its surroundings. Descriptors are objects shared between the
  \<open>plugins\<close> map, the consent queue and the callbacks of a load, so they live in
  \<open>heap\<close> and are referred to by their index; the resolver of a promise is the
  promise's number. \<open>now\<close> is what \<open>timer()\<close> reads; it stays the same during one call
  into the loader. \<open>consentCheck\<close> is the configured function, as the answer it gives
  for the required states. The log of the loader is left out. \<open>plugins\<close> has the
  keys that were stored in it and no others: plugin names are taken not to be names
  of members of \<open>Object.prototype\<close> (such as \<open>toString\<close> or \<open>constructor\<close>), for
  which \<open>this.plugins[name]\<close> finds the inherited member and the load is rejected
  with a \<open>TypeError\<close>.
\<close>

record loader =
  dimensions :: "(string \<times> dimension) list"
  eventPrefix :: string
  consentCheck :: "string list \<Rightarrow> bool"
  dimensionConfig :: "string \<rightharpoonup> string"
  experiments :: "manager option"
  plugins :: "string \<rightharpoonup> nat"
  metrics :: "string \<rightharpoonup> perf"
  consentQueue :: "(nat \<times> nat) list"
  heap :: "plugin list"
  win :: window
  now :: int
  effects :: "effect list"
  promises :: nat
  timers :: nat

text \<open>
  \<open>new PluginLoader(config)\<close>, on a page with the window \<open>w\<close> at the time \<open>t\<close>;
  \<open>dims\<close> are the generated dimensions merged with the configured ones. And
  \<open>setExperiments\<close>.
\<close>

definition new_loader ::
  "(string \<times> dimension) list \<Rightarrow> string option \<Rightarrow> (string list \<Rightarrow> bool) option \<Rightarrow>
   (string \<rightharpoonup> string) \<Rightarrow> window \<Rightarrow> int \<Rightarrow> loader"
where
  "new_loader dims prefix cc dc w t =
     \<lparr>dimensions = dims,
      eventPrefix = (case prefix of Some p \<Rightarrow> if p \<noteq> [] then p else ''plugin'' | None \<Rightarrow> ''plugin''),
      consentCheck = (case cc of Some f \<Rightarrow> f | None \<Rightarrow> (\<lambda>requiredStates. True)),
      dimensionConfig = dc, experiments = None, plugins = Map.empty, metrics = Map.empty,
      consentQueue = [], heap = [], win = w, now = t, effects = [], promises = 0, timers = 0\<rparr>"

definition setExperiments :: "manager \<Rightarrow> loader \<Rightarrow> loader" where
  "setExperiments experimentManager s = s\<lparr>experiments := Some experimentManager\<rparr>"

datatype completion = Normal | Thrown

definition emit :: "effect \<Rightarrow> loader \<Rightarrow> loader" where
  "emit e s = s\<lparr>effects := effects s @ [e]\<rparr>"

definition modify :: "nat \<Rightarrow> (plugin \<Rightarrow> plugin) \<Rightarrow> loader \<Rightarrow> loader" where
  "modify r f s = s\<lparr>heap := (heap s)[r := f (heap s ! r)]\<rparr>"

definition loaderGetContext :: "(string \<times> dimension) list \<Rightarrow> (string \<times> jsval) list" where
  "loaderGetContext dims =
     map (\<lambda>(key, fn). (key, (case fn of
                                DimValue v \<Rightarrow> v
                              | DimFn (Returns v) \<Rightarrow> v
                              | DimFn Throws \<Rightarrow> JUndefined))) dims"

text \<open>\<open>str.split(',')\<close>, and \<open>getUrlOverrides\<close> as the pair (enable, disable).\<close>

fun split_comma :: "string \<Rightarrow> string list" where
  "split_comma [] = [[]]"
| "split_comma (c # cs) =
     (if c = CHR '','' then [] # split_comma cs
      else (case split_comma cs of [] \<Rightarrow> [[c]] | w # ws \<Rightarrow> (c # w) # ws))"

definition getUrlOverrides :: "window option \<Rightarrow> string list \<times> string list" where
  "getUrlOverrides w =
     (case w of
        None \<Rightarrow> ([], [])
      | Some params \<Rightarrow>
          (filter (\<lambda>x. x \<noteq> [])
             (split_comma (case pluginEnable params of Some v \<Rightarrow> v | None \<Rightarrow> [])),
           filter (\<lambda>x. x \<noteq> [])
             (split_comma (case pluginDisable params of Some v \<Rightarrow> v | None \<Rightarrow> []))))"

text \<open>\<open>checkUrlOverride\<close> as the pair (override, enabled).\<close>

definition checkUrlOverride :: "loader \<Rightarrow> string \<Rightarrow> bool \<times> bool" where
  "checkUrlOverride s nm =
     (case getUrlOverrides (Some (win s)) of
        (enable, disable) \<Rightarrow>
          if ''all'' \<in> set disable then
            (if nm \<in> set enable then (True, True) else (True, False))
          else if nm \<in> set enable then (True, True)
          else if nm \<in> set disable then (True, False)
          else (False, True))"

definition checkConsent :: "loader \<Rightarrow> string list option \<Rightarrow> bool" where
  "checkConsent s requiredStates =
     (case requiredStates of
        None \<Rightarrow> True
      | Some rs \<Rightarrow> if rs = [] \<or> ''all'' \<in> set rs then True else consentCheck s rs)"

definition updateMetrics :: "nat \<Rightarrow> loader \<Rightarrow> loader" where
  "updateMetrics r s = s\<lparr>metrics := (metrics s)(name (heap s ! r) \<mapsto> performance (heap s ! r))\<rparr>"

definition publishEvent :: "string \<Rightarrow> string \<Rightarrow> string option \<Rightarrow> loader \<Rightarrow> loader" where
  "publishEvent nm event rsn s =
     emit (Published (eventPrefix s @ ''.'' @ nm @ ''.'' @ event) nm event rsn) s"

definition handleInactive :: "nat \<Rightarrow> nat \<Rightarrow> loader \<Rightarrow> loader" where
  "handleInactive r resolve s0 =
     (let s1 = modify r (\<lambda>p. p\<lparr>status := Inactive,
                   performance := (performance p)\<lparr>perf_status := Inactive,
                     perf_latency := calculateLatency (now s0) (performance p)\<rparr>\<rparr>) s0;
          s2 = updateMetrics r s1;
          s3 = publishEvent (name (heap s2 ! r)) ''inactive'' None s2;
          s4 = publishEvent (name (heap s3 ! r)) ''complete'' None s3
      in emit (Resolved resolve
                \<lparr>res_status = Inactive, res_name = name (heap s4 ! r), res_reason = None,
                 res_error = None, res_performance = performance (heap s4 ! r)\<rparr>) s4)"

definition handleIgnore :: "nat \<Rightarrow> string \<Rightarrow> nat \<Rightarrow> loader \<Rightarrow> completion \<times> loader" where
  "handleIgnore r rsn resolve s0 =
     (let s1 = modify r (\<lambda>p. p\<lparr>active := False, status := Ignore,
                   performance := (performance p)\<lparr>perf_status := Ignore,
                     perf_latency := calculateLatency (now s0) (performance p)\<rparr>\<rparr>) s0;
          s2 = updateMetrics r s1;
          s3 = emit (HookCalled ''ignoreFn'' (name (heap s2 ! r))) s2
      in case ignoreFn (heap s3 ! r) of
           HookThrows \<Rightarrow> (Thrown, s3)
         | HookReturns \<Rightarrow>
             (let s4 = publishEvent (name (heap s3 ! r)) ''ignore'' (Some rsn) s3;
                  s5 = publishEvent (name (heap s4 ! r)) ''complete'' None s4
              in (Normal,
                  emit (Resolved resolve
                         \<lparr>res_status = Ignore, res_name = name (heap s5 ! r),
                          res_reason = Some rsn, res_error = None,
                          res_performance = performance (heap s5 ! r)\<rparr>) s5)))"

text \<open>
  The three callbacks that \<open>executeLoad\<close> creates for a descriptor and a promise: the
  function given to \<open>setTimeout\<close>, \<open>script.onload\<close> and \<open>script.onerror\<close>.
\<close>

definition timeout_callback :: "nat \<Rightarrow> nat \<Rightarrow> loader \<Rightarrow> completion \<times> loader" where
  "timeout_callback r resolve s0 =
     (if status (heap s0 ! r) = Requested then
        (let s1 = modify r (\<lambda>p. p\<lparr>status := Timeout,
                      performance := (performance p)\<lparr>perf_status := Timeout,
                        perf_timeout := now s0,
                        perf_latency := calculateLatency (now s0) (performance p)\<rparr>\<rparr>) s0;
             s2 = updateMetrics r s1;
             s3 = emit (HookCalled ''timeoutFn'' (name (heap s2 ! r))) s2
         in case timeoutFn (heap s3 ! r) of
              HookThrows \<Rightarrow> (Thrown, s3)
            | HookReturns \<Rightarrow>
                (let s4 = publishEvent (name (heap s3 ! r)) ''timeout'' None s3;
                     s5 = publishEvent (name (heap s4 ! r)) ''complete'' None s4
                 in (Normal,
                     emit (Resolved resolve
                            \<lparr>res_status = Timeout, res_name = name (heap s5 ! r),
                             res_reason = None, res_error = None,
                             res_performance = performance (heap s5 ! r)\<rparr>) s5)))
      else (Normal, s0))"

definition script_onload :: "nat \<Rightarrow> nat \<Rightarrow> loader \<Rightarrow> completion \<times> loader" where
  "script_onload r resolve s0 =
     (if status (heap s0 ! r) = Requested then
        (let sc = emit (TimerCleared (timeoutProc (heap s0 ! r))) s0;
             s1 = modify r (\<lambda>p. p\<lparr>status := Loaded,
                      performance := (performance p)\<lparr>perf_status := Loaded,
                        perf_received := now s0,
                        perf_latency := calculateLatency (now s0) (performance p)\<rparr>\<rparr>) sc;
             s2 = updateMetrics r s1;
             s3 = emit (HookCalled ''onloadFn'' (name (heap s2 ! r))) s2
         in case onloadFn (heap s3 ! r) of
              HookThrows \<Rightarrow> (Thrown, s3)
            | HookReturns \<Rightarrow>
                (let s4 = publishEvent (name (heap s3 ! r)) ''load'' None s3;
                     s5 = publishEvent (name (heap s4 ! r)) ''complete'' None s4
                 in (Normal,
                     emit (Resolved resolve
                            \<lparr>res_status = Loaded, res_name = name (heap s5 ! r),
                             res_reason = None, res_error = None,
                             res_performance = performance (heap s5 ! r)\<rparr>) s5)))
      else (Normal, s0))"

definition script_onerror :: "nat \<Rightarrow> nat \<Rightarrow> jsval \<Rightarrow> loader \<Rightarrow> completion \<times> loader" where
  "script_onerror r resolve err s0 =
     (if status (heap s0 ! r) = Requested then
        (let sc = emit (TimerCleared (timeoutProc (heap s0 ! r))) s0;
             s1 = modify r (\<lambda>p. p\<lparr>status := Error,
                      performance := (performance p)\<lparr>perf_status := Error,
                        perf_error := now s0,
                        perf_latency := calculateLatency (now s0) (performance p)\<rparr>\<rparr>) sc;
             s2 = updateMetrics r s1;
             s3 = emit (HookCalled ''onerrorFn'' (name (heap s2 ! r))) s2
         in case onerrorFn (heap s3 ! r) of
              HookThrows \<Rightarrow> (Thrown, s3)
            | HookReturns \<Rightarrow>
                (let s4 = publishEvent (name (heap s3 ! r)) ''error'' None s3;
                     s5 = publishEvent (name (heap s4 ! r)) ''complete'' None s4
                 in (Normal,
                     emit (Resolved resolve
                            \<lparr>res_status = Error, res_name = name (heap s5 ! r),
                             res_reason = None, res_error = Some err,
                             res_performance = performance (heap s5 ! r)\<rparr>) s5)))
      else (Normal, s0))"

definition executeLoad :: "nat \<Rightarrow> nat \<Rightarrow> loader \<Rightarrow> completion \<times> loader" where
  "executeLoad r resolve s0 =
     (let tid = timers s0;
          s1 = emit (TimerSet tid r resolve (timeout (heap s0 ! r))) (s0\<lparr>timers := Suc tid\<rparr>);
          s2 = modify r (\<lambda>p. p\<lparr>timeoutProc := Some tid\<rparr>) s1;
          s3 = modify r (\<lambda>p. p\<lparr>performance := (performance p)\<lparr>perf_preload := now s2\<rparr>\<rparr>) s2;
          s4 = emit (HookCalled ''preloadFn'' (name (heap s3 ! r))) s3
      in case preloadFn (heap s4 ! r) of
           HookThrows \<Rightarrow> (Thrown, s4)
         | HookReturns \<Rightarrow>
             (let p = heap s4 ! r;
                  el = \<lparr>script_type = ''text/javascript'', script_id = plugin_id p,
                        script_async = async p, script_attributes = attributes p,
                        script_src = None\<rparr>;
                  s5 = modify r (\<lambda>p. p\<lparr>tag := Some el\<rparr>) s4
              in if truthy (url p) then
                   (let el' = el\<lparr>script_src := url p\<rparr>;
                        s6 = modify r (\<lambda>p. p\<lparr>tag := Some el', status := Requested,
                                 performance := (performance p)\<lparr>perf_status := Requested,
                                   perf_requested := now s5\<rparr>\<rparr>) s5
                    in (Normal, emit (ScriptAppended (location p) el' r resolve) s6))
                 else handleIgnore r ''No URL provided'' resolve s5))"

text \<open>
  \<open>register(config)\<close>: the reference of the descriptor it returns, and the loader.
\<close>

definition register :: "plugin_config \<Rightarrow> loader \<Rightarrow> nat \<times> loader" where
  "register config s =
     (let plugin = normalizePluginConfig (eventPrefix s) (now s) config;
          r = length (heap s)
      in (r, s\<lparr>heap := heap s @ [plugin], plugins := (plugins s)(name plugin \<mapsto> r)\<rparr>))"

text \<open>
  The function that \<open>load(config)\<close> gives to \<open>new Promise\<close>, for the descriptor
  \<open>r\<close> and the resolver of the new promise. Its first block, the URL override, and
  its block that applies the experiments are named on their own.
\<close>

definition applyUrlOverride :: "nat \<Rightarrow> loader \<Rightarrow> loader" where
  "applyUrlOverride r s0 =
     (let urlOverride = checkUrlOverride s0 (name (heap s0 ! r))
      in if fst urlOverride then
           (if snd urlOverride then
              publishEvent (name (heap s0 ! r)) ''override.enabled'' None
                (modify r (\<lambda>p. p\<lparr>p_include := empty_targeting,
                            p_exclude := empty_targeting,
                            domains := [''all''], consentState := [''all'']\<rparr>) s0)
            else
              publishEvent (name (heap s0 ! r)) ''override.disabled'' None
                (modify r (\<lambda>p. p\<lparr>active := False\<rparr>) s0))
         else s0)"

definition applyExperiments :: "nat \<Rightarrow> loader \<Rightarrow> loader" where
  "applyExperiments r s1 =
     (case experiments s1 of
        None \<Rightarrow> s1
      | Some m \<Rightarrow>
          (case experiments_apply m (Some (name (heap s1 ! r))) (heap s1 ! r) of
             (m', p') \<Rightarrow> s1\<lparr>experiments := Some m', heap := (heap s1)[r := p']\<rparr>))"

definition load_checks :: "nat \<Rightarrow> nat \<Rightarrow> loader \<Rightarrow> completion \<times> loader" where
  "load_checks r resolve s0 =
     (let s1 = applyUrlOverride r s0
      in if active (heap s1 ! r) \<noteq> True then (Normal, handleInactive r resolve s1)
         else if \<not> checkConsent s1 (Some (consentState (heap s1 ! r))) then
           (Normal,
            publishEvent (name (heap s1 ! r)) ''consent.pending'' None
              (s1\<lparr>consentQueue := consentQueue s1 @ [(r, resolve)]\<rparr>))
         else if \<not> matchesDomain (Some (domains (heap s1 ! r))) None (Some (host (win s1))) then
           handleIgnore r ''Domain mismatch'' resolve s1
         else
           (let s2 = applyExperiments r s1;
                context = loaderGetContext (dimensions s2);
                targeting = normalizeTargetingConfig (Some (p_include (heap s2 ! r)))
                              (Some (p_exclude (heap s2 ! r)));
                result = evaluateTargeting (fst targeting) (snd targeting) context
                           (dimensionConfig s2)
            in if \<not> matched result then handleIgnore r (reason result) resolve s2
               else executeLoad r resolve s2))"

text \<open>
  \<open>load(config)\<close>: the number of the promise it returns, and the loader. An exception
  in the function given to \<open>new Promise\<close> rejects the promise.
\<close>

definition load :: "plugin_config \<Rightarrow> loader \<Rightarrow> nat \<times> loader" where
  "load config s0 =
     (let resolve = promises s0;
          s1 = s0\<lparr>promises := Suc resolve\<rparr>;
          (r, s2) = (case plugins s1 (c_name config) of
                       Some r \<Rightarrow> (r, s1)
                     | None \<Rightarrow>
                         (length (heap s1),
                          s1\<lparr>heap := heap s1 @
                                [normalizePluginConfig (eventPrefix s1) (now s1) config]\<rparr>));
          s3 = s2\<lparr>plugins := (plugins s2)(name (heap s2 ! r) \<mapsto> r)\<rparr>
      in case load_checks r resolve s3 of
           (Normal, s4) \<Rightarrow> (resolve, s4)
         | (Thrown, s4) \<Rightarrow> (resolve, emit (Rejected resolve) s4))"

text \<open>
  \<open>processConsentQueue()\<close>: the loop over the copy of the queue, and the function.
  An exception ends the loop.
\<close>

fun process_entries :: "(nat \<times> nat) list \<Rightarrow> loader \<Rightarrow> completion \<times> loader" where
  "process_entries [] s = (Normal, s)"
| "process_entries ((r, resolve) # rest) s =
     (if checkConsent s (Some (consentState (heap s ! r))) then
        (let context = loaderGetContext (dimensions s);
             targeting = normalizeTargetingConfig (Some (p_include (heap s ! r)))
                           (Some (p_exclude (heap s ! r)));
             result = evaluateTargeting (fst targeting) (snd targeting) context
                        (dimensionConfig s)
         in case (if matched result
                     \<and> matchesDomain (Some (domains (heap s ! r))) None (Some (host (win s)))
                  then executeLoad r resolve s
                  else handleIgnore r
                         (if reason result \<noteq> [] then reason result else ''Domain mismatch'')
                         resolve s) of
              (Normal, s') \<Rightarrow> process_entries rest s'
            | (Thrown, s') \<Rightarrow> (Thrown, s'))
      else process_entries rest (s\<lparr>consentQueue := consentQueue s @ [(r, resolve)]\<rparr>))"

definition processConsentQueue :: "loader \<Rightarrow> completion \<times> loader" where
  "processConsentQueue s = process_entries (consentQueue s) (s\<lparr>consentQueue := []\<rparr>)"


section \<open>Notions used in the statements\<close>

text \<open>The comparison that the \<open>switch\<close> on the match type selects.\<close>

definition matchesUnder :: "string \<Rightarrow> string \<Rightarrow> string \<Rightarrow> bool" where
  "matchesUnder matchType normalizedValue rule =
     (if matchType = ''startsWith'' then startsWith normalizedValue rule
      else if matchType = ''includes'' then str_includes normalizedValue rule
      else normalizedValue = rule)"

text \<open>
  For the experiment loop: the bucket test on an experiment, the plugin test of the
  loop, and the experiments of the test group and of the control group of one call.
\<close>

definition in_testRange :: "manager \<Rightarrow> registered_experiment \<Rightarrow> bool" where
  "in_testRange m e = (fst (testRange e) \<le> testgroup m \<and> testgroup m \<le> snd (testRange e))"

definition isMatch :: "string option \<Rightarrow> registered_experiment \<Rightarrow> bool" where
  "isMatch pluginName e =
     (if truthy pluginName then exp_plugin e = pluginName else \<not> truthy (exp_plugin e))"

definition in_test_group ::
  "manager \<Rightarrow> string option \<Rightarrow> string \<times> registered_experiment \<Rightarrow> bool"
where
  "in_test_group m pluginName entry =
     (exp_active (snd entry) \<and> isMatch pluginName (snd entry)
      \<and> targetingMatches m (snd entry) \<and> in_testRange m (snd entry))"

definition in_control_group ::
  "manager \<Rightarrow> string option \<Rightarrow> string \<times> registered_experiment \<Rightarrow> bool"
where
  "in_control_group m pluginName entry =
     (exp_active (snd entry) \<and> isMatch pluginName (snd entry)
      \<and> targetingMatches m (snd entry) \<and> \<not> in_testRange m (snd entry))"

text \<open>
  The same two groups as the loop decides them, with \<open>isInExperiment\<close> on the id in
  place of the bucket test on the entry.
\<close>

definition step_applied ::
  "manager \<Rightarrow> string option \<Rightarrow> string \<times> registered_experiment \<Rightarrow> bool"
where
  "step_applied m pluginName entry =
     (exp_active (snd entry) \<and> isMatch pluginName (snd entry)
      \<and> targetingMatches m (snd entry) \<and> isInExperiment m (fst entry))"

definition step_eligible ::
  "manager \<Rightarrow> string option \<Rightarrow> string \<times> registered_experiment \<Rightarrow> bool"
where
  "step_eligible m pluginName entry =
     (exp_active (snd entry) \<and> isMatch pluginName (snd entry)
      \<and> targetingMatches m (snd entry) \<and> \<not> isInExperiment m (fst entry))"

text \<open>
  What the experiments of the test group do to the descriptor, in their order: each
  \<open>apply\<close> function is called on the descriptor as the ones before left it, and the
  id is kept where the call returns.
\<close>

fun run_test_group :: "(string \<times> registered_experiment) list \<Rightarrow> plugin \<Rightarrow> string list \<times> plugin" where
  "run_test_group [] pluginConfig = ([], pluginConfig)"
| "run_test_group ((i, e) # rest) pluginConfig =
     (case exp_apply e pluginConfig of
        Applied p' \<Rightarrow> (case run_test_group rest p' of (ids, q) \<Rightarrow> (i # ids, q))
      | ApplyThrew p' \<Rightarrow> run_test_group rest p')"

text \<open>
  For the race between the callbacks of a load: a firing of one of the three
  callbacks, for a descriptor and a promise, and a sequence of firings.
\<close>

datatype firing = TimeoutFires nat nat | ScriptLoads nat nat | ScriptFails nat nat jsval

fun fired_for :: "firing \<Rightarrow> nat" where
  "fired_for (TimeoutFires r resolve) = r"
| "fired_for (ScriptLoads r resolve) = r"
| "fired_for (ScriptFails r resolve err) = r"

fun fire :: "firing \<Rightarrow> loader \<Rightarrow> completion \<times> loader" where
  "fire (TimeoutFires r resolve) s = timeout_callback r resolve s"
| "fire (ScriptLoads r resolve) s = script_onload r resolve s"
| "fire (ScriptFails r resolve err) s = script_onerror r resolve err s"

fun fire_all :: "firing list \<Rightarrow> loader \<Rightarrow> loader" where
  "fire_all [] s = s"
| "fire_all (f # fs) s = fire_all fs (snd (fire f s))"

text \<open>
  For reading a list of effects: the promises resolved with the status they were
  resolved with, a short name for each effect, and both together with the status of
  a descriptor and the number of promises created.
\<close>

fun resolutions :: "effect list \<Rightarrow> (nat \<times> status) list" where
  "resolutions [] = []"
| "resolutions (Resolved resolve result # es) = (resolve, res_status result) # resolutions es"
| "resolutions (e # es) = resolutions es"

fun label :: "effect \<Rightarrow> string" where
  "label (Published topic nm event rsn) = topic"
| "label (Resolved resolve result) = ''resolve''"
| "label (Rejected resolve) = ''reject''"
| "label (HookCalled h nm) = h"
| "label (TimerSet tid r resolve ms) = ''setTimeout''"
| "label (TimerCleared tid) = ''clearTimeout''"
| "label (ScriptAppended loc el r resolve) = ''appendChild''"

definition outcome :: "nat \<Rightarrow> loader \<Rightarrow> status \<times> nat \<times> (nat \<times> status) list \<times> string list" where
  "outcome r s =
     (status (heap s ! r), promises s, resolutions (effects s), map label (effects s))"


section \<open>Example configurations\<close>

text \<open>A configuration object with a name only.\<close>

definition bare_config :: "string \<Rightarrow> plugin_config" where
  "bare_config nm =
     \<lparr>c_name = nm, c_id = None, c_url = None, c_type = None, c_active = None,
      c_async = None, c_location = None, c_timeout = None, c_domains = None,
      c_consentState = None, c_consent = None, c_include = None, c_exclude = None,
      c_attributes = None, c_preloadFn = None, c_preload = None, c_onloadFn = None,
      c_onload = None, c_onerrorFn = None, c_onerror = None, c_timeoutFn = None,
      c_ontimeout = None, c_ignoreFn = None, c_onignore = None, c_status = None\<rparr>"

text \<open>
  The plugin \<open>analytics\<close> and the experiment \<open>analytics_v2_test\<close> on it, as the
  repository configures them.
\<close>

definition all_pages :: targeting where
  "all_pages =
     \<lparr>special = None,
      rules = [''section'' \<mapsto> [JStr ''all''], ''pagetype'' \<mapsto> [JStr ''all''],
               ''geo'' \<mapsto> [JStr ''all'']]\<rparr>"

definition analytics :: plugin_config where
  "analytics =
     (bare_config ''analytics'')
       \<lparr>c_active := Some True,
        c_url := Some ''https://cdn.jsdelivr.net/npm/js-cookie@3.0.5/dist/js.cookie.min.js'',
        c_domains := Some [''all''], c_include := Some all_pages,
        c_exclude := Some empty_targeting\<rparr>"

definition use_analytics_v2 :: "plugin \<Rightarrow> apply_result" where
  "use_analytics_v2 pluginConfig =
     Applied (pluginConfig\<lparr>url := Some ''https://cdn.example.com/analytics-v2.min.js''\<rparr>)"

definition analytics_v2_test :: experiment_config where
  "analytics_v2_test =
     \<lparr>ec_id = Some ''analytics_v2_test'', ec_active = Some True, ec_testRange = Some (0, 24),
      ec_plugin = Some ''analytics'', ec_include = Some all_pages,
      ec_exclude = Some empty_targeting, ec_apply = Some use_analytics_v2\<rparr>"

text \<open>An experiment on the same plugin whose \<open>apply\<close> function throws at once.\<close>

definition broken_test :: experiment_config where
  "broken_test =
     \<lparr>ec_id = Some ''broken_test'', ec_active = Some True, ec_testRange = Some (0, 99),
      ec_plugin = Some ''analytics'', ec_include = None, ec_exclude = None,
      ec_apply = Some ApplyThrew\<rparr>"

text \<open>A page of the section \<open>news\<close>, and managers for a user of bucket 10 on it.\<close>

definition news_page :: "(string \<times> jsval) list" where
  "news_page = [(''section'', JStr ''news'')]"

definition manager_10 :: manager where
  "manager_10 =
     snd (register_experiment analytics_v2_test
            (new_manager None (Some 10) 0 news_page Map.empty))"

definition manager_broken :: manager where
  "manager_broken =
     snd (register_experiment analytics_v2_test
            (snd (register_experiment broken_test
                    (new_manager None (Some 10) 0 news_page Map.empty))))"

definition manager_off :: manager where
  "manager_off =
     snd (register_experiment analytics_v2_test
            (new_manager (Some False) (Some 10) 0 news_page Map.empty))"


text \<open>
  A loader on a page of the section \<open>news\<close> of \<open>example.com\<close>, and the same page
  opened with \<open>?pluginDisable=all&pluginEnable=analytics\<close> under a consent check that
  refuses.
\<close>

definition news_loader :: loader where
  "news_loader =
     new_loader [(''section'', DimFn (Returns (JStr ''news'')))] None None Map.empty
       \<lparr>host = ''example.com'', pluginEnable = None, pluginDisable = None\<rparr> 0"

definition forced_loader :: loader where
  "forced_loader =
     new_loader [(''section'', DimFn (Returns (JStr ''news'')))] None
       (Some (\<lambda>requiredStates. False)) Map.empty
       \<lparr>host = ''example.com'', pluginEnable = Some ''analytics'', pluginDisable = Some ''all''\<rparr> 0"

text \<open>
  The plugin \<open>analytics\<close> restricted to another host, to a consent state and to the
  section \<open>sport\<close>; and an experiment that narrows a plugin to the section \<open>sport\<close>.
\<close>

definition blocked_analytics :: plugin_config where
  "blocked_analytics =
     analytics
       \<lparr>c_domains := Some [''other.org''], c_consentState := Some [''marketing''],
        c_include := Some \<lparr>special = None, rules = [''section'' \<mapsto> [JStr ''sport'']]\<rparr>,
        c_exclude := Some \<lparr>special = None, rules = [''section'' \<mapsto> [JStr ''news'']]\<rparr>\<rparr>"

definition sport_only :: "plugin \<Rightarrow> apply_result" where
  "sport_only pluginConfig =
     Applied (pluginConfig\<lparr>p_include :=
       (p_include pluginConfig)\<lparr>rules :=
          (rules (p_include pluginConfig))(''section'' \<mapsto> [JStr ''sport''])\<rparr>\<rparr>)"

definition sport_only_test :: experiment_config where
  "sport_only_test =
     \<lparr>ec_id = Some ''sport_only_test'', ec_active = Some True, ec_testRange = Some (0, 49),
      ec_plugin = Some ''analytics'', ec_include = None, ec_exclude = None,
      ec_apply = Some sport_only\<rparr>"

definition manager_narrow :: manager where
  "manager_narrow =
     snd (register_experiment sport_only_test
            (new_manager None (Some 10) 0 news_page Map.empty))"

text \<open>
  A plugin \<open>a\<close> with a URL and nothing else, loaded twice on the page of the section
  \<open>news\<close>: the first load runs into its timeout after 3000 ms, the caller loads the
  plugin again at 5000 ms, and at 5200 ms the script element of the first load reports
  success.
\<close>

definition plugin_a :: plugin_config where
  "plugin_a = (bare_config ''a'')\<lparr>c_url := Some ''https://x/y.js''\<rparr>"

definition first_load_timed_out :: loader where
  "first_load_timed_out =
     snd (timeout_callback 0 0 ((snd (load plugin_a news_loader))\<lparr>now := 3000\<rparr>))"

definition second_load_requested :: loader where
  "second_load_requested = snd (load plugin_a (first_load_timed_out\<lparr>now := 5000\<rparr>))"

definition late_onload :: loader where
  "late_onload = snd (script_onload 0 0 (second_load_requested\<lparr>now := 5200\<rparr>))"

text \<open>
  The plugin \<open>analytics\<close> behind the consent state \<open>analytics\<close>, a loader with the
  experiments of \<open>manager_10\<close> whose consent check refuses, and the consent check
  turning to grant.
\<close>

definition gated_analytics :: plugin_config where
  "gated_analytics = analytics\<lparr>c_consentState := Some [''analytics'']\<rparr>"

definition consent_loader :: loader where
  "consent_loader =
     setExperiments manager_10
       (new_loader [(''section'', DimFn (Returns (JStr ''news'')))] None
          (Some (\<lambda>requiredStates. False)) Map.empty
          \<lparr>host = ''example.com'', pluginEnable = None, pluginDisable = None\<rparr> 0)"

definition grant_consent :: "loader \<Rightarrow> loader" where
  "grant_consent s = s\<lparr>consentCheck := (\<lambda>requiredStates. True)\<rparr>"


section \<open>Targeting: the wildcard and the special predicates\<close>

lemma matchesRule_all: "JStr ''all'' \<in> set rs \<Longrightarrow> matchesRule v (Some rs) matchType"
  by (auto simp: matchesRule_def)

lemma matchesDomain_all: "''all'' \<in> set ds \<Longrightarrow> matchesDomain (Some ds) currentDomain windowHost"
  by (auto simp: matchesDomain_def Let_def)

lemma isExcluded_nonempty:
  "rs \<noteq> [] \<Longrightarrow>
   isExcluded v (Some rs) matchType =
     list_ex (\<lambda>rule. matchesUnder matchType (toLowerCase (toString v))
                       (toLowerCase (toString rule))) rs"
  by (simp add: isExcluded_def matchesUnder_def Let_def)

text \<open>
  Claim C3, as the code has it. For a rule list that contains the string \<open>all\<close>, at
  any position, \<open>matchesRule\<close> returns true for every value and match type, and
  \<open>matchesDomain\<close> returns true for every host. \<open>isExcluded\<close> has no wildcard: on such
  a list it returns true exactly when the lower-cased value matches one of the rules
  under the match type, the rule \<open>all\<close> being compared like any other string.
\<close>

theorem wildcard_all_matches:
  "(JStr ''all'' \<in> set rs \<longrightarrow> matchesRule v (Some rs) matchType)
   \<and> (''all'' \<in> set ds \<longrightarrow> matchesDomain (Some ds) currentDomain windowHost)
   \<and> (JStr ''all'' \<in> set rs \<longrightarrow>
        isExcluded v (Some rs) matchType =
          list_ex (\<lambda>rule. matchesUnder matchType (toLowerCase (toString v))
                            (toLowerCase (toString rule))) rs)"
proof (intro conjI impI)
  assume "JStr ''all'' \<in> set rs"
  then show "matchesRule v (Some rs) matchType" by (rule matchesRule_all)
next
  assume "''all'' \<in> set ds"
  then show "matchesDomain (Some ds) currentDomain windowHost" by (rule matchesDomain_all)
next
  assume "JStr ''all'' \<in> set rs"
  then have "rs \<noteq> []" by auto
  then show "isExcluded v (Some rs) matchType =
          list_ex (\<lambda>rule. matchesUnder matchType (toLowerCase (toString v))
                            (toLowerCase (toString rule))) rs"
    by (rule isExcluded_nonempty)
qed

theorem wildcard_all_matches_witness:
  "JStr ''all'' \<in> set [JStr ''sport'', JStr ''all'']
   \<and> matchesRule (JStr ''news'') (Some [JStr ''sport'', JStr ''all'']) ''exact''
   \<and> ''all'' \<in> set [''example.com'', ''all'']
   \<and> matchesDomain (Some [''example.com'', ''all'']) None (Some ''other.org'')
   \<and> isExcluded (JStr ''news'') (Some [JStr ''sport'', JStr ''all'']) ''exact'' = False"
  using wildcard_all_matches [of "[JStr ''sport'', JStr ''all'']" "JStr ''news''" "''exact''"
          "[''example.com'', ''all'']" None "Some ''other.org''"]
  by (simp add: matchesUnder_def toLowerCase_def toLowerChar_def)

text \<open>
  Against claim C3 as the specification states it: the value \<open>news\<close> is not excluded
  by the rule list \<open>['all']\<close>.
\<close>

theorem isExcluded_has_no_wildcard:
  "\<not> isExcluded (JStr ''news'') (Some [JStr ''all'']) ''exact''"
  by (simp add: isExcluded_def toLowerCase_def toLowerChar_def)

lemma evaluateDimensions_special_exc:
  "evaluateDimensions inc (exc\<lparr>special := b\<rparr>) dc ctx =
   evaluateDimensions inc exc dc ctx"
  by (induction ctx) (auto simp: Let_def)

lemma evaluateDimensions_special_inc:
  "evaluateDimensions (inc\<lparr>special := a\<rparr>) exc dc ctx =
   evaluateDimensions inc exc dc ctx"
  by (induction ctx) (auto simp: Let_def)

text \<open>
  Claim C5, with the reasons spelt as the code spells them. If \<open>exclude.special()\<close>
  returns \<open>true\<close> the result is not matched, with the reason
  \<open>Excluded by special function\<close>. Otherwise, if \<open>include.special()\<close> returns \<open>true\<close> the
  result is matched, with the reason \<open>Included by special function\<close>, whatever the
  rules of the dimensions and the context are. A special predicate that throws gives
  the same result as one that returns \<open>false\<close>.
\<close>

theorem special_predicates_short_circuit:
  "(special exc = Some (Returns (JBool True)) \<longrightarrow>
      evaluateTargeting inc exc ctx dc =
        \<lparr>matched = False, reason = ''Excluded by special function''\<rparr>)
   \<and> (special exc \<noteq> Some (Returns (JBool True)) \<and> special inc = Some (Returns (JBool True)) \<longrightarrow>
      evaluateTargeting inc exc ctx dc =
        \<lparr>matched = True, reason = ''Included by special function''\<rparr>)
   \<and> evaluateTargeting inc (exc\<lparr>special := Some Throws\<rparr>) ctx dc =
     evaluateTargeting inc (exc\<lparr>special := Some (Returns (JBool False))\<rparr>) ctx dc
   \<and> evaluateTargeting (inc\<lparr>special := Some Throws\<rparr>) exc ctx dc =
     evaluateTargeting (inc\<lparr>special := Some (Returns (JBool False))\<rparr>) exc ctx dc"
  by (simp add: evaluateTargeting_def evaluateDimensions_special_exc
      evaluateDimensions_special_inc)

text \<open>
  On a page of the section \<open>news\<close>, with rules that include only \<open>sport\<close> and exclude
  \<open>news\<close>: a true \<open>exclude.special()\<close> blocks, and a true \<open>include.special()\<close>, next
  to an \<open>exclude.special()\<close> that throws, admits.
\<close>

theorem special_predicates_short_circuit_witness:
  "evaluateTargeting
     \<lparr>special = Some (Returns (JBool True)), rules = [''section'' \<mapsto> [JStr ''sport'']]\<rparr>
     \<lparr>special = Some (Returns (JBool True)), rules = [''section'' \<mapsto> [JStr ''news'']]\<rparr>
     news_page Map.empty
     = \<lparr>matched = False, reason = ''Excluded by special function''\<rparr>
   \<and> evaluateTargeting
     \<lparr>special = Some (Returns (JBool True)), rules = [''section'' \<mapsto> [JStr ''sport'']]\<rparr>
     \<lparr>special = Some Throws, rules = [''section'' \<mapsto> [JStr ''news'']]\<rparr>
     news_page Map.empty
     = \<lparr>matched = True, reason = ''Included by special function''\<rparr>"
  using special_predicates_short_circuit
          [of "\<lparr>special = Some (Returns (JBool True)), rules = [''section'' \<mapsto> [JStr ''news'']]\<rparr>"
              "\<lparr>special = Some (Returns (JBool True)), rules = [''section'' \<mapsto> [JStr ''sport'']]\<rparr>"
              news_page Map.empty]
        special_predicates_short_circuit
          [of "\<lparr>special = Some Throws, rules = [''section'' \<mapsto> [JStr ''news'']]\<rparr>"
              "\<lparr>special = Some (Returns (JBool True)), rules = [''section'' \<mapsto> [JStr ''sport'']]\<rparr>"
              news_page Map.empty]
  by simp

text \<open>
  Against claim C5 as the specification states it: the reason does not start with a
  small letter.
\<close>

theorem special_reason_is_capitalised:
  "evaluateTargeting empty_targeting
     (empty_targeting\<lparr>special := Some (Returns (JBool True))\<rparr>) [] Map.empty
   \<noteq> \<lparr>matched = False, reason = ''excluded by special function''\<rparr>"
  by (simp add: evaluateTargeting_def)


section \<open>The experiment manager\<close>

lemma isInExperiment_iff:
  "isInExperiment m i \<longleftrightarrow>
     mgr_active m \<and> (\<exists>e. map_of (registry m) i = Some e \<and> exp_active e
        \<and> fst (testRange e) \<le> testgroup m \<and> testgroup m \<le> snd (testRange e))"
  by (auto simp: isInExperiment_def split: option.splits prod.splits)

lemma isInExperiment_cong:
  "mgr_active m' = mgr_active m \<Longrightarrow> testgroup m' = testgroup m \<Longrightarrow>
   map_option (\<lambda>e. (exp_active e, testRange e)) (map_of (registry m') i) =
   map_option (\<lambda>e. (exp_active e, testRange e)) (map_of (registry m) i) \<Longrightarrow>
   isInExperiment m' i = isInExperiment m i"
  by (auto simp: isInExperiment_def split: option.splits prod.splits)

lemma targetingMatches_cong:
  "getContext m' = getContext m \<Longrightarrow> mgr_dimensionConfig m' = mgr_dimensionConfig m \<Longrightarrow>
   targetingMatches m' e = targetingMatches m e"
  by (simp add: targetingMatches_def)

lemma apply_entry_applied [simp]:
  "isInExperiment (m\<lparr>applied := a\<rparr>) i = isInExperiment m i"
  "isInExperiment (m\<lparr>eligible := b\<rparr>) i = isInExperiment m i"
  "targetingMatches (m\<lparr>applied := a\<rparr>) e = targetingMatches m e"
  "targetingMatches (m\<lparr>eligible := b\<rparr>) e = targetingMatches m e"
  by (simp_all add: isInExperiment_def targetingMatches_def split: option.splits prod.splits)


lemma step_upd [simp]:
  "step_applied (m\<lparr>applied := a\<rparr>) = step_applied m"
  "step_applied (m\<lparr>eligible := b\<rparr>) = step_applied m"
  "step_eligible (m\<lparr>applied := a\<rparr>) = step_eligible m"
  "step_eligible (m\<lparr>eligible := b\<rparr>) = step_eligible m"
  by (simp_all add: step_applied_def step_eligible_def fun_eq_iff)

lemma apply_entries_groups:
  "apply_entries pn xs (m, p) =
     (m\<lparr>applied := applied m @ fst (run_test_group (filter (step_applied m pn) xs) p),
        eligible := eligible m @ map fst (filter (step_eligible m pn) xs)\<rparr>,
      snd (run_test_group (filter (step_applied m pn) xs) p))"
proof (induction xs arbitrary: m p)
  case Nil
  show ?case by simp
next
  case (Cons x xs)
  obtain i e where x: "x = (i, e)" by (cases x)
  note IH = Cons.IH
  consider (test) "step_applied m pn (i, e)"
    | (control) "step_eligible m pn (i, e)" "\<not> step_applied m pn (i, e)"
    | (skip) "\<not> step_eligible m pn (i, e)" "\<not> step_applied m pn (i, e)"
    by blast
  then have "apply_entries pn ((i, e) # xs) (m, p) =
     (m\<lparr>applied := applied m @ fst (run_test_group (filter (step_applied m pn) ((i, e) # xs)) p),
        eligible := eligible m @ map fst (filter (step_eligible m pn) ((i, e) # xs))\<rparr>,
      snd (run_test_group (filter (step_applied m pn) ((i, e) # xs)) p))"
  proof cases
    case test
    then have ne: "\<not> step_eligible m pn (i, e)"
      by (simp add: step_applied_def step_eligible_def)
    show ?thesis
    proof (cases "exp_apply e p")
      case (Applied p')
      with test have "apply_entry pn (i, e) (m, p) = (m\<lparr>applied := applied m @ [i]\<rparr>, p')"
        by (simp add: apply_entry_def step_applied_def isMatch_def)
      then show ?thesis using test ne Applied
        by (simp add: IH split: prod.splits)
    next
      case (ApplyThrew p')
      with test have "apply_entry pn (i, e) (m, p) = (m, p')"
        by (simp add: apply_entry_def step_applied_def isMatch_def)
      then show ?thesis using test ne ApplyThrew
        by (simp add: IH)
    qed
  next
    case control
    then have "apply_entry pn (i, e) (m, p) = (m\<lparr>eligible := eligible m @ [i]\<rparr>, p)"
      by (simp add: apply_entry_def step_eligible_def isMatch_def)
    then show ?thesis using control by (simp add: IH)
  next
    case skip
    then have "apply_entry pn (i, e) (m, p) = (m, p)"
      by (auto simp: apply_entry_def step_eligible_def step_applied_def isMatch_def)
    then show ?thesis using skip by (simp add: IH)
  qed
  then show ?case using x by simp
qed

lemma apply_entries_append:
  "apply_entries pn (xs @ ys) st = apply_entries pn ys (apply_entries pn xs st)"
  by (induction xs arbitrary: st) auto

lemma isInExperiment_registered:
  "distinct (map fst (registry m)) \<Longrightarrow> (i, e) \<in> set (registry m) \<Longrightarrow>
   isInExperiment m i = (mgr_active m \<and> exp_active e \<and> in_testRange m e)"
  by (auto simp: isInExperiment_def in_testRange_def split: prod.splits)


lemma apply_entry_config:
  "apply_entry pn x (m, p) = (m', p') \<Longrightarrow>
   mgr_active m' = mgr_active m \<and> testgroup m' = testgroup m \<and> getContext m' = getContext m
   \<and> mgr_dimensionConfig m' = mgr_dimensionConfig m \<and> registry m' = registry m"
  by (cases x) (auto simp: apply_entry_def Let_def split: if_splits apply_result.splits)

lemma apply_entries_config:
  "apply_entries pn xs (m, p) = (m', p') \<Longrightarrow>
   mgr_active m' = mgr_active m \<and> testgroup m' = testgroup m \<and> getContext m' = getContext m
   \<and> mgr_dimensionConfig m' = mgr_dimensionConfig m \<and> registry m' = registry m"
proof (induction xs arbitrary: m p)
  case Nil
  then show ?case by simp
next
  case (Cons x xs)
  obtain m1 p1 where st: "apply_entry pn x (m, p) = (m1, p1)"
    by (cases "apply_entry pn x (m, p)")
  from Cons.prems st have "apply_entries pn xs (m1, p1) = (m', p')" by simp
  from Cons.IH [OF this] apply_entry_config [OF st] show ?case by simp
qed

lemma experiments_apply_config:
  "experiments_apply m pn p = (m', p') \<Longrightarrow>
   mgr_active m' = mgr_active m \<and> testgroup m' = testgroup m \<and> getContext m' = getContext m
   \<and> mgr_dimensionConfig m' = mgr_dimensionConfig m \<and> registry m' = registry m"
  by (auto simp: experiments_apply_def split: if_splits dest: apply_entries_config)

lemma bucket_set: "{g::int. 0 \<le> g \<and> g \<le> 24} = {0..24}"
  by auto


text \<open>
  Claim C6. \<open>isInExperiment(id)\<close> is true exactly when the manager is active, an
  experiment is registered under the id and is active, and the manager's bucket lies
  between the two ends of its \<open>testRange\<close>, both included. The answer is the same for
  two states of the manager that agree on the manager's flag and bucket and on the
  experiment's flag and range, and a call of \<open>apply\<close> between two calls does not change
  it. With the range \<open>[0, 24]\<close> the buckets that are admitted are the 25 buckets from
  0 to 24.
\<close>

theorem isInExperiment_bucketing:
  "(isInExperiment m i \<longleftrightarrow>
      mgr_active m \<and> (\<exists>e. map_of (registry m) i = Some e \<and> exp_active e
        \<and> fst (testRange e) \<le> testgroup m \<and> testgroup m \<le> snd (testRange e)))
   \<and> (mgr_active m' = mgr_active m \<and> testgroup m' = testgroup m
        \<and> map_option (\<lambda>e. (exp_active e, testRange e)) (map_of (registry m') i) =
          map_option (\<lambda>e. (exp_active e, testRange e)) (map_of (registry m) i)
      \<longrightarrow> isInExperiment m' i = isInExperiment m i)
   \<and> isInExperiment (fst (experiments_apply m pluginName p)) i = isInExperiment m i
   \<and> (mgr_active m \<and> map_of (registry m) i = Some e \<and> exp_active e \<and> testRange e = (0, 24)
      \<longrightarrow> {g. isInExperiment (m\<lparr>testgroup := g\<rparr>) i} = {0..24}
          \<and> card {g. isInExperiment (m\<lparr>testgroup := g\<rparr>) i} = 25)"
proof (intro conjI impI)
  show "isInExperiment m i \<longleftrightarrow>
      mgr_active m \<and> (\<exists>e. map_of (registry m) i = Some e \<and> exp_active e
        \<and> fst (testRange e) \<le> testgroup m \<and> testgroup m \<le> snd (testRange e))"
    by (rule isInExperiment_iff)
next
  assume "mgr_active m' = mgr_active m \<and> testgroup m' = testgroup m
        \<and> map_option (\<lambda>e. (exp_active e, testRange e)) (map_of (registry m') i) =
          map_option (\<lambda>e. (exp_active e, testRange e)) (map_of (registry m) i)"
  then show "isInExperiment m' i = isInExperiment m i"
    by (intro isInExperiment_cong) simp_all
next
  obtain m1 p1 where r: "experiments_apply m pluginName p = (m1, p1)"
    by (cases "experiments_apply m pluginName p")
  from experiments_apply_config [OF r] have "isInExperiment m1 i = isInExperiment m i"
    by (intro isInExperiment_cong) simp_all
  with r show "isInExperiment (fst (experiments_apply m pluginName p)) i = isInExperiment m i"
    by simp
next
  assume a: "mgr_active m \<and> map_of (registry m) i = Some e \<and> exp_active e \<and> testRange e = (0, 24)"
  then have "{g. isInExperiment (m\<lparr>testgroup := g\<rparr>) i} = {g. 0 \<le> g \<and> g \<le> 24}"
    by (simp add: isInExperiment_def)
  then have s: "{g. isInExperiment (m\<lparr>testgroup := g\<rparr>) i} = {0..24}"
    by (simp add: bucket_set)
  show "{g. isInExperiment (m\<lparr>testgroup := g\<rparr>) i} = {0..24}" by (rule s)
  show "card {g. isInExperiment (m\<lparr>testgroup := g\<rparr>) i} = 25" by (simp add: s)
qed

lemma manager_10_eq:
  "manager_10 =
     \<lparr>mgr_active = True, testgroup = 10, getContext = news_page, mgr_dimensionConfig = Map.empty,
      registry = [(''analytics_v2_test'',
         \<lparr>exp_id = ''analytics_v2_test'', exp_active = True, testRange = (0, 24),
          exp_plugin = Some ''analytics'', exp_include = Some all_pages,
          exp_exclude = Some empty_targeting, exp_apply = use_analytics_v2\<rparr>)],
      applied = [], eligible = []\<rparr>"
  by (simp add: manager_10_def register_experiment_def new_manager_def analytics_v2_test_def Let_def)

theorem isInExperiment_bucketing_witness:
  "isInExperiment manager_10 ''analytics_v2_test''
   \<and> isInExperiment (manager_10\<lparr>applied := [''x'']\<rparr>) ''analytics_v2_test''
   \<and> isInExperiment (fst (experiments_apply manager_10 None (normalizePluginConfig ''plugin'' 0 analytics))) ''analytics_v2_test''
   \<and> {g. isInExperiment (manager_10\<lparr>testgroup := g\<rparr>) ''analytics_v2_test''} = {0..24}
   \<and> card {g. isInExperiment (manager_10\<lparr>testgroup := g\<rparr>) ''analytics_v2_test''} = 25"
  using isInExperiment_bucketing [of manager_10 "''analytics_v2_test''" "manager_10\<lparr>applied := [''x'']\<rparr>" None
              "normalizePluginConfig ''plugin'' 0 analytics"
              "\<lparr>exp_id = ''analytics_v2_test'', exp_active = True, testRange = (0, 24),
          exp_plugin = Some ''analytics'', exp_include = Some all_pages,
          exp_exclude = Some empty_targeting, exp_apply = use_analytics_v2\<rparr>"]
  by (simp add: manager_10_eq)


lemma test_group_step:
  "mgr_active m \<Longrightarrow> distinct (map fst (registry m)) \<Longrightarrow>
   filter (step_applied m pn) (registry m) = filter (in_test_group m pn) (registry m)"
  by (rule filter_cong)
     (auto simp: step_applied_def in_test_group_def isInExperiment_registered)

lemma control_group_step:
  "mgr_active m \<Longrightarrow> distinct (map fst (registry m)) \<Longrightarrow>
   filter (step_eligible m pn) (registry m) = filter (in_control_group m pn) (registry m)"
  by (rule filter_cong)
     (auto simp: step_eligible_def in_control_group_def isInExperiment_registered)


text \<open>
  The registry has one entry for an id: the constructor starts with none, and
  \<open>register\<close> and \<open>unregister\<close> keep it so.
\<close>

lemma distinct_new_manager: "distinct (map fst (registry (new_manager act tg drawn ctx dc)))"
  by (simp add: new_manager_def)

lemma distinct_register_experiment:
  "distinct (map fst (registry m)) \<Longrightarrow>
   distinct (map fst (registry (snd (register_experiment c m))))"
  by (simp add: register_experiment_def Let_def AList.distinct_update)

lemma distinct_unregister:
  "distinct (map fst (registry m)) \<Longrightarrow> distinct (map fst (registry (unregister i m)))"
  by (simp add: unregister_def AList.distinct_delete)

lemma manager_broken_eq:
  "manager_broken =
     \<lparr>mgr_active = True, testgroup = 10, getContext = news_page, mgr_dimensionConfig = Map.empty,
      registry = [(''broken_test'',
         \<lparr>exp_id = ''broken_test'', exp_active = True, testRange = (0, 99),
          exp_plugin = Some ''analytics'', exp_include = Some empty_targeting,
          exp_exclude = Some empty_targeting, exp_apply = ApplyThrew\<rparr>),
        (''analytics_v2_test'',
         \<lparr>exp_id = ''analytics_v2_test'', exp_active = True, testRange = (0, 24),
          exp_plugin = Some ''analytics'', exp_include = Some all_pages,
          exp_exclude = Some empty_targeting, exp_apply = use_analytics_v2\<rparr>)],
      applied = [], eligible = []\<rparr>"
  by (simp add: manager_broken_def register_experiment_def new_manager_def analytics_v2_test_def
      broken_test_def Let_def)

lemma manager_off_eq:
  "manager_off =
     \<lparr>mgr_active = False, testgroup = 10, getContext = news_page, mgr_dimensionConfig = Map.empty,
      registry = [(''analytics_v2_test'',
         \<lparr>exp_id = ''analytics_v2_test'', exp_active = True, testRange = (0, 24),
          exp_plugin = Some ''analytics'', exp_include = Some all_pages,
          exp_exclude = Some empty_targeting, exp_apply = use_analytics_v2\<rparr>)],
      applied = [], eligible = []\<rparr>"
  by (simp add: manager_off_def register_experiment_def new_manager_def analytics_v2_test_def Let_def)

lemmas targeting_eval = targetingMatches_def normalizeTargetingConfig_def
      normalizeTargeting_def evaluateTargeting_def all_pages_def empty_targeting_def
      news_page_def matchesRule_def

lemma broken_apply:
  "experiments_apply manager_broken (Some ''analytics'') p =
     (manager_broken\<lparr>applied := [''analytics_v2_test'']\<rparr>,
      p\<lparr>url := Some ''https://cdn.example.com/analytics-v2.min.js''\<rparr>)"
  by (simp add: manager_broken_eq experiments_apply_def apply_entry_def isInExperiment_def
      use_analytics_v2_def targeting_eval)


text \<open>
  Claim C7, as the code has it. On an active manager, one call of
  \<open>apply(pluginName, descriptor)\<close> goes through the registry in order and, among the
  active experiments whose \<open>plugin\<close> matches the call: calls the \<open>apply\<close> functions of
  those whose targeting matches and whose range holds the bucket, each on the
  descriptor as the ones before left it, and appends to \<open>applied\<close> the ids of those of
  them whose call returns; appends to \<open>eligible\<close> the ids of those whose targeting
  matches and whose range does not hold the bucket; and appends the ids of the others,
  and of the experiments whose call throws, to neither list. On a manager that is
  switched off the call changes nothing. The registry is an object, so that its ids
  are distinct; the constructor, \<open>register\<close> and \<open>unregister\<close> keep them so.
\<close>

theorem apply_records_groups:
  "(mgr_active m \<and> distinct (map fst (registry m)) \<longrightarrow>
    experiments_apply m pluginName p =
     (m\<lparr>applied := applied m @
          fst (run_test_group (filter (in_test_group m pluginName) (registry m)) p),
        eligible := eligible m @ map fst (filter (in_control_group m pluginName) (registry m))\<rparr>,
      snd (run_test_group (filter (in_test_group m pluginName) (registry m)) p)))
   \<and> (\<not> mgr_active m \<longrightarrow> experiments_apply m pluginName p = (m, p))"
  by (simp add: experiments_apply_def apply_entries_groups test_group_step control_group_step)

theorem apply_records_groups_witness:
  "mgr_active manager_broken \<and> distinct (map fst (registry manager_broken))
   \<and> map fst (filter (in_test_group manager_broken (Some ''analytics'')) (registry manager_broken))
       = [''broken_test'', ''analytics_v2_test'']
   \<and> applied (fst (experiments_apply manager_broken (Some ''analytics'')
                    (normalizePluginConfig ''plugin'' 0 analytics))) = [''analytics_v2_test'']
   \<and> eligible (fst (experiments_apply manager_broken (Some ''analytics'')
                    (normalizePluginConfig ''plugin'' 0 analytics))) = []
   \<and> url (snd (experiments_apply manager_broken (Some ''analytics'')
                    (normalizePluginConfig ''plugin'' 0 analytics)))
       = Some ''https://cdn.example.com/analytics-v2.min.js''
   \<and> \<not> mgr_active manager_off
   \<and> experiments_apply manager_off (Some ''analytics'')
         (normalizePluginConfig ''plugin'' 0 analytics)
       = (manager_off, normalizePluginConfig ''plugin'' 0 analytics)"
proof -
  let ?p = "normalizePluginConfig ''plugin'' 0 analytics"
  have a: "mgr_active manager_broken" by (simp add: manager_broken_eq)
  have d: "distinct (map fst (registry manager_broken))" by (simp add: manager_broken_eq)
  have g: "filter (in_test_group manager_broken (Some ''analytics'')) (registry manager_broken)
           = registry manager_broken"
    by (simp add: manager_broken_eq in_test_group_def isMatch_def in_testRange_def targeting_eval)
  have c: "filter (in_control_group manager_broken (Some ''analytics'')) (registry manager_broken)
           = []"
    by (simp add: manager_broken_eq in_control_group_def in_testRange_def)
  from a d apply_records_groups [of manager_broken "Some ''analytics''" ?p]
  have on: "experiments_apply manager_broken (Some ''analytics'') ?p =
     (manager_broken\<lparr>applied := applied manager_broken @
          fst (run_test_group (registry manager_broken) ?p),
        eligible := eligible manager_broken\<rparr>,
      snd (run_test_group (registry manager_broken) ?p))"
    by (simp add: g c)
  have o: "\<not> mgr_active manager_off" by (simp add: manager_off_eq)
  from o apply_records_groups [of manager_off "Some ''analytics''" ?p]
  have off: "experiments_apply manager_off (Some ''analytics'') ?p = (manager_off, ?p)"
    by simp
  show ?thesis
    using a d o off by (simp add: on g) (simp add: manager_broken_eq use_analytics_v2_def)
qed

text \<open>
  Against claim C7 as the specification states it. The experiment \<open>broken_test\<close> is
  active, is for the plugin of the call, matches the context and holds the bucket,
  but its \<open>apply\<close> function throws and its id is not appended to \<open>applied\<close>. On a
  manager that is switched off, the experiment of the configuration qualifies in the
  same way and neither list changes.
\<close>

theorem apply_skips_without_recording:
  "in_test_group manager_broken (Some ''analytics'') (hd (registry manager_broken))
   \<and> fst (hd (registry manager_broken)) = ''broken_test''
   \<and> applied (fst (experiments_apply manager_broken (Some ''analytics'')
                     (normalizePluginConfig ''plugin'' 0 analytics))) = [''analytics_v2_test'']
   \<and> in_test_group manager_off (Some ''analytics'') (hd (registry manager_off))
   \<and> applied (fst (experiments_apply manager_off (Some ''analytics'')
                     (normalizePluginConfig ''plugin'' 0 analytics))) = []
   \<and> eligible (fst (experiments_apply manager_off (Some ''analytics'')
                     (normalizePluginConfig ''plugin'' 0 analytics))) = []"
proof -
  have 1: "in_test_group manager_broken (Some ''analytics'') (hd (registry manager_broken))"
    by (simp add: manager_broken_eq in_test_group_def isMatch_def in_testRange_def targeting_eval)
  have 2: "in_test_group manager_off (Some ''analytics'') (hd (registry manager_off))"
    by (simp add: manager_off_eq in_test_group_def isMatch_def in_testRange_def targeting_eval)
  have 3: "experiments_apply manager_off (Some ''analytics'')
             (normalizePluginConfig ''plugin'' 0 analytics)
           = (manager_off, normalizePluginConfig ''plugin'' 0 analytics)"
    by (simp add: experiments_apply_def manager_off_eq)
  show ?thesis
    using 1 2 by (simp add: broken_apply 3) (simp add: manager_broken_eq manager_off_eq)
qed


text \<open>
  Claim C10. When the \<open>apply\<close> function of an experiment of the test group throws, the
  step of the loop for this experiment returns with both lists as they were, and the
  call goes on with every entry of the registry behind it.
\<close>

theorem apply_survives_throwing_experiment:
  assumes act: "mgr_active m"
    and reg: "registry m = xs @ (i, e) # ys"
    and sel: "exp_active e" "isMatch pluginName e" "targetingMatches m e" "isInExperiment m i"
    and before: "apply_entries pluginName xs (m, p) = (m1, p1)"
    and throws: "exp_apply e p1 = ApplyThrew p2"
  shows "apply_entry pluginName (i, e) (m1, p1) = (m1, p2)
         \<and> experiments_apply m pluginName p = apply_entries pluginName ys (m1, p2)"
proof -
  from apply_entries_config [OF before]
  have cfg: "mgr_active m1 = mgr_active m" "testgroup m1 = testgroup m"
    "getContext m1 = getContext m" "mgr_dimensionConfig m1 = mgr_dimensionConfig m"
    "registry m1 = registry m"
    by simp_all
  have t: "targetingMatches m1 e"
    using sel(3) targetingMatches_cong [OF cfg(3) cfg(4), of e] by simp
  have b: "isInExperiment m1 i"
    using sel(4) isInExperiment_cong [of m1 m i] cfg by simp
  have step: "apply_entry pluginName (i, e) (m1, p1) = (m1, p2)"
    using sel(1,2) t b throws by (simp add: apply_entry_def isMatch_def)
  have "experiments_apply m pluginName p = apply_entries pluginName (xs @ (i, e) # ys) (m, p)"
    using act reg by (simp add: experiments_apply_def)
  also have "\<dots> = apply_entries pluginName ys (apply_entry pluginName (i, e) (m1, p1))"
    by (simp add: apply_entries_append before)
  finally show ?thesis using step by simp
qed

theorem apply_survives_throwing_experiment_witness:
  "mgr_active manager_broken
   \<and> registry manager_broken = [] @ hd (registry manager_broken) # tl (registry manager_broken)
   \<and> exp_apply (snd (hd (registry manager_broken))) (normalizePluginConfig ''plugin'' 0 analytics)
       = ApplyThrew (normalizePluginConfig ''plugin'' 0 analytics)
   \<and> applied (fst (experiments_apply manager_broken (Some ''analytics'')
                     (normalizePluginConfig ''plugin'' 0 analytics))) = [''analytics_v2_test'']
   \<and> eligible (fst (experiments_apply manager_broken (Some ''analytics'')
                     (normalizePluginConfig ''plugin'' 0 analytics))) = []"
proof -
  let ?e = "\<lparr>exp_id = ''broken_test'', exp_active = True, testRange = (0, 99),
          exp_plugin = Some ''analytics'', exp_include = Some empty_targeting,
          exp_exclude = Some empty_targeting, exp_apply = ApplyThrew\<rparr>"
  let ?p = "normalizePluginConfig ''plugin'' 0 analytics"
  have a: "mgr_active manager_broken" by (simp add: manager_broken_eq)
  have r: "registry manager_broken = [] @ (''broken_test'', ?e) # tl (registry manager_broken)"
    by (simp add: manager_broken_eq)
  have s: "exp_active ?e" "isMatch (Some ''analytics'') ?e" "targetingMatches manager_broken ?e"
    "isInExperiment manager_broken ''broken_test''"
    by (simp_all add: isMatch_def manager_broken_eq isInExperiment_def targeting_eval)
  have b: "apply_entries (Some ''analytics'') [] (manager_broken, ?p) = (manager_broken, ?p)"
    by simp
  have t: "exp_apply ?e ?p = ApplyThrew ?p" by simp
  from apply_survives_throwing_experiment [OF a r s b t]
  have "experiments_apply manager_broken (Some ''analytics'') ?p =
        apply_entries (Some ''analytics'') (tl (registry manager_broken)) (manager_broken, ?p)"
    by simp
  then show ?thesis
    by (simp add: manager_broken_eq apply_entry_def isInExperiment_def use_analytics_v2_def
        targeting_eval)
qed


section \<open>The loader: the race between the callbacks of a load\<close>

lemma heap_emit [simp]: "heap (emit e s) = heap s"
  by (simp add: emit_def)

lemma heap_publishEvent [simp]: "heap (publishEvent nm ev rsn s) = heap s"
  by (simp add: publishEvent_def)

lemma heap_updateMetrics [simp]: "heap (updateMetrics r s) = heap s"
  by (simp add: updateMetrics_def)

lemma heap_modify [simp]: "heap (modify r f s) = (heap s)[r := f (heap s ! r)]"
  by (simp add: modify_def)

lemma timeout_callback_noop:
  "status (heap s ! r) \<noteq> Requested \<Longrightarrow> timeout_callback r resolve s = (Normal, s)"
  by (simp add: timeout_callback_def)

lemma script_onload_noop:
  "status (heap s ! r) \<noteq> Requested \<Longrightarrow> script_onload r resolve s = (Normal, s)"
  by (simp add: script_onload_def)

lemma script_onerror_noop:
  "status (heap s ! r) \<noteq> Requested \<Longrightarrow> script_onerror r resolve err s = (Normal, s)"
  by (simp add: script_onerror_def)

lemma fire_noop:
  "status (heap s ! fired_for f) \<noteq> Requested \<Longrightarrow> fire f s = (Normal, s)"
  by (cases f) (simp_all add: timeout_callback_noop script_onload_noop script_onerror_noop)

lemma fire_all_noop:
  "status (heap s ! r) \<noteq> Requested \<Longrightarrow> \<forall>f \<in> set fs. fired_for f = r \<Longrightarrow> fire_all fs s = s"
  by (induction fs) (simp_all add: fire_noop)

lemma status_after_timeout:
  "r < length (heap s) \<Longrightarrow> status (heap s ! r) = Requested \<Longrightarrow>
   status (heap (snd (timeout_callback r resolve s)) ! r) = Timeout"
  by (simp add: timeout_callback_def Let_def split: hook.splits)

lemma status_after_fire:
  "fired_for f < length (heap s) \<Longrightarrow> status (heap s ! fired_for f) = Requested \<Longrightarrow>
   status (heap (snd (fire f s)) ! fired_for f) \<in> {Loaded, Error, Timeout}"
  by (cases f)
     (simp_all add: timeout_callback_def script_onload_def script_onerror_def Let_def
        split: hook.splits)

lemma first_firing_wins:
  assumes "r < length (heap s)" "status (heap s ! r) = Requested"
    "fired_for f = r" "\<forall>g \<in> set fs. fired_for g = r"
  shows "fire_all (f # fs) s = snd (fire f s)"
proof -
  from status_after_fire [of f s] assms
  have "status (heap (snd (fire f s)) ! r) \<noteq> Requested" by auto
  then show ?thesis using assms(4) by (simp add: fire_all_noop)
qed

text \<open>
  The guard of the callbacks. While the status of a descriptor is \<open>loaded\<close>, \<open>error\<close>
  or \<open>timeout\<close>, the callback of the timeout alarm and the success and error callbacks of the script
  element return without changing anything: the status, the performance record, the
  metrics and the list of hooks called, events published and promises resolved all
  stay as they are, and so they do through any sequence of such firings for this
  descriptor. In particular, after the alarm has taken a load from \<open>requested\<close> to
  \<open>timeout\<close>, a success or error report of the script does nothing; and of any
  sequence of firings for a descriptor that is \<open>requested\<close>, the first one leaves a
  terminal status and the others do nothing. The guard reads the status of the
  descriptor, which every load of the same name shares.
\<close>

theorem resolution_is_final:
  "(status (heap s ! r) \<in> {Loaded, Error, Timeout} \<longrightarrow>
      timeout_callback r resolve s = (Normal, s)
      \<and> script_onload r resolve s = (Normal, s)
      \<and> script_onerror r resolve err s = (Normal, s))
   \<and> (status (heap s ! r) \<in> {Loaded, Error, Timeout} \<and> (\<forall>f \<in> set fs. fired_for f = r) \<longrightarrow>
      fire_all fs s = s)
   \<and> (r < length (heap s) \<and> status (heap s ! r) = Requested \<longrightarrow>
      status (heap (snd (timeout_callback r resolve s)) ! r) = Timeout
      \<and> script_onload r resolve' (snd (timeout_callback r resolve s))
          = (Normal, snd (timeout_callback r resolve s))
      \<and> script_onerror r resolve' err (snd (timeout_callback r resolve s))
          = (Normal, snd (timeout_callback r resolve s)))
   \<and> (r < length (heap s) \<and> status (heap s ! r) = Requested \<and> fired_for f = r
        \<and> (\<forall>g \<in> set fs. fired_for g = r) \<longrightarrow>
      status (heap (snd (fire f s)) ! r) \<in> {Loaded, Error, Timeout}
      \<and> fire_all (f # fs) s = snd (fire f s))"
proof (intro conjI impI)
  assume t: "status (heap s ! r) \<in> {Loaded, Error, Timeout}"
  then have n: "status (heap s ! r) \<noteq> Requested" by auto
  show "timeout_callback r resolve s = (Normal, s)" using n by (rule timeout_callback_noop)
  show "script_onload r resolve s = (Normal, s)" using n by (rule script_onload_noop)
  show "script_onerror r resolve err s = (Normal, s)" using n by (rule script_onerror_noop)
next
  assume "status (heap s ! r) \<in> {Loaded, Error, Timeout} \<and> (\<forall>f \<in> set fs. fired_for f = r)"
  then have "status (heap s ! r) \<noteq> Requested" and "\<forall>f \<in> set fs. fired_for f = r" by auto
  then show "fire_all fs s = s" by (rule fire_all_noop)
next
  assume a: "r < length (heap s) \<and> status (heap s ! r) = Requested"
  then have st: "status (heap (snd (timeout_callback r resolve s)) ! r) = Timeout"
    by (simp add: status_after_timeout)
  then have n: "status (heap (snd (timeout_callback r resolve s)) ! r) \<noteq> Requested" by simp
  show "status (heap (snd (timeout_callback r resolve s)) ! r) = Timeout" by (rule st)
  show "script_onload r resolve' (snd (timeout_callback r resolve s))
          = (Normal, snd (timeout_callback r resolve s))"
    using n by (rule script_onload_noop)
  show "script_onerror r resolve' err (snd (timeout_callback r resolve s))
          = (Normal, snd (timeout_callback r resolve s))"
    using n by (rule script_onerror_noop)
next
  assume a: "r < length (heap s) \<and> status (heap s ! r) = Requested \<and> fired_for f = r
        \<and> (\<forall>g \<in> set fs. fired_for g = r)"
  then show "status (heap (snd (fire f s)) ! r) \<in> {Loaded, Error, Timeout}"
    using status_after_fire [of f s] by simp
  from a have "r < length (heap s)" "status (heap s ! r) = Requested" "fired_for f = r"
    "\<forall>g \<in> set fs. fired_for g = r"
    by simp_all
  then show "fire_all (f # fs) s = snd (fire f s)" by (rule first_firing_wins)
qed

lemmas loader_eval = load_def load_checks_def applyUrlOverride_def checkUrlOverride_def
  getUrlOverrides_def checkConsent_def matchesDomain_def applyExperiments_def
  loaderGetContext_def normalizeTargetingConfig_def normalizeTargeting_def
  evaluateTargeting_def executeLoad_def modify_def emit_def publishEvent_def
  updateMetrics_def handleIgnore_def handleInactive_def normalizePluginConfig_def
  bare_config_def new_loader_def hook_or_def createPerformanceTracker_def
  calculateLatency_def empty_targeting_def matchesRule_def isExcluded_def

lemma load_analytics_requested:
  "status (heap (snd (load analytics news_loader)) ! 0) = Requested
   \<and> length (heap (snd (load analytics news_loader))) = 1"
  by (simp add: loader_eval analytics_def news_loader_def all_pages_def Let_def)

theorem resolution_is_final_witness:
  "0 < length (heap (snd (load analytics news_loader)))
   \<and> status (heap (snd (load analytics news_loader)) ! 0) = Requested
   \<and> status (heap (snd (timeout_callback 0 0 (snd (load analytics news_loader)))) ! 0) = Timeout
   \<and> script_onload 0 0 (snd (timeout_callback 0 0 (snd (load analytics news_loader))))
       = (Normal, snd (timeout_callback 0 0 (snd (load analytics news_loader))))
   \<and> script_onerror 0 0 JNull (snd (timeout_callback 0 0 (snd (load analytics news_loader))))
       = (Normal, snd (timeout_callback 0 0 (snd (load analytics news_loader))))
   \<and> timeout_callback 0 0 (snd (timeout_callback 0 0 (snd (load analytics news_loader))))
       = (Normal, snd (timeout_callback 0 0 (snd (load analytics news_loader))))
   \<and> fire_all [ScriptLoads 0 0, TimeoutFires 0 0, ScriptFails 0 0 JNull]
         (snd (timeout_callback 0 0 (snd (load analytics news_loader))))
       = snd (timeout_callback 0 0 (snd (load analytics news_loader)))
   \<and> status (heap (snd (fire (ScriptLoads 0 0) (snd (load analytics news_loader)))) ! 0)
       \<in> {Loaded, Error, Timeout}
   \<and> fire_all [ScriptLoads 0 0, TimeoutFires 0 0] (snd (load analytics news_loader))
       = snd (fire (ScriptLoads 0 0) (snd (load analytics news_loader)))"
proof -
  let ?s1 = "snd (load analytics news_loader)"
  let ?s2 = "snd (timeout_callback 0 0 ?s1)"
  have a: "0 < length (heap ?s1)" "status (heap ?s1 ! 0) = Requested"
    using load_analytics_requested by simp_all
  from a resolution_is_final [of ?s1 0 0 JNull "[TimeoutFires 0 0]" 0 "ScriptLoads 0 0"]
  have t: "status (heap ?s2 ! 0) = Timeout"
    and w: "status (heap (snd (fire (ScriptLoads 0 0) ?s1)) ! 0) \<in> {Loaded, Error, Timeout}"
      "fire_all [ScriptLoads 0 0, TimeoutFires 0 0] ?s1 = snd (fire (ScriptLoads 0 0) ?s1)"
    by simp_all
  have f: "\<forall>f \<in> set [ScriptLoads 0 0, TimeoutFires 0 0, ScriptFails 0 0 JNull]. fired_for f = 0"
    by simp
  from t f resolution_is_final [of ?s2 0 0 JNull
              "[ScriptLoads 0 0, TimeoutFires 0 0, ScriptFails 0 0 JNull]" 0 "TimeoutFires 0 0"]
  have "timeout_callback 0 0 ?s2 = (Normal, ?s2) \<and> script_onload 0 0 ?s2 = (Normal, ?s2)
        \<and> script_onerror 0 0 JNull ?s2 = (Normal, ?s2)
        \<and> fire_all [ScriptLoads 0 0, TimeoutFires 0 0, ScriptFails 0 0 JNull] ?s2 = ?s2"
    by simp
  with a t w show ?thesis by simp
qed


text \<open>
  Claim C1, on the plugin \<open>a\<close> loaded twice. The first load ends in \<open>timeout\<close> and
  resolves promise 0. The second load of the same name takes the same descriptor and
  sets its status to \<open>requested\<close> again. The success report of the first script
  element then passes the guard: it clears the timer of the second load, sets the
  status \<open>loaded\<close>, calls the \<open>onload\<close> hook, publishes \<open>load\<close> and \<open>complete\<close> and
  calls the resolver of promise 0 a second time. After it the callbacks of the second
  load do nothing, so that promise 1 is never resolved.
\<close>

theorem late_report_resolves_again:
  "outcome 0 first_load_timed_out =
     (Timeout, 1, [(0, Timeout)],
      [''setTimeout'', ''preloadFn'', ''appendChild'',
       ''timeoutFn'', ''plugin.a.timeout'', ''plugin.a.complete'', ''resolve''])
   \<and> outcome 0 second_load_requested =
     (Requested, 2, [(0, Timeout)],
      [''setTimeout'', ''preloadFn'', ''appendChild'',
       ''timeoutFn'', ''plugin.a.timeout'', ''plugin.a.complete'', ''resolve'',
       ''setTimeout'', ''preloadFn'', ''appendChild''])
   \<and> outcome 0 late_onload =
     (Loaded, 2, [(0, Timeout), (0, Loaded)],
      [''setTimeout'', ''preloadFn'', ''appendChild'',
       ''timeoutFn'', ''plugin.a.timeout'', ''plugin.a.complete'', ''resolve'',
       ''setTimeout'', ''preloadFn'', ''appendChild'',
       ''clearTimeout'', ''onloadFn'', ''plugin.a.load'', ''plugin.a.complete'', ''resolve''])
   \<and> script_onload 0 1 late_onload = (Normal, late_onload)
   \<and> script_onerror 0 1 JNull late_onload = (Normal, late_onload)
   \<and> timeout_callback 0 1 late_onload = (Normal, late_onload)"
proof -
  note ev = loader_eval news_loader_def plugin_a_def timeout_callback_def script_onload_def
    outcome_def Let_def
  have 1: "outcome 0 first_load_timed_out =
     (Timeout, 1, [(0, Timeout)],
      [''setTimeout'', ''preloadFn'', ''appendChild'',
       ''timeoutFn'', ''plugin.a.timeout'', ''plugin.a.complete'', ''resolve''])"
    by (simp add: first_load_timed_out_def ev)
  have 2: "outcome 0 second_load_requested =
     (Requested, 2, [(0, Timeout)],
      [''setTimeout'', ''preloadFn'', ''appendChild'',
       ''timeoutFn'', ''plugin.a.timeout'', ''plugin.a.complete'', ''resolve'',
       ''setTimeout'', ''preloadFn'', ''appendChild''])"
    by (simp add: second_load_requested_def first_load_timed_out_def ev)
  have 3: "outcome 0 late_onload =
     (Loaded, 2, [(0, Timeout), (0, Loaded)],
      [''setTimeout'', ''preloadFn'', ''appendChild'',
       ''timeoutFn'', ''plugin.a.timeout'', ''plugin.a.complete'', ''resolve'',
       ''setTimeout'', ''preloadFn'', ''appendChild'',
       ''clearTimeout'', ''onloadFn'', ''plugin.a.load'', ''plugin.a.complete'', ''resolve''])"
    by (simp add: late_onload_def second_load_requested_def first_load_timed_out_def ev)
  from 3 have n: "status (heap late_onload ! 0) \<noteq> Requested"
    by (simp add: outcome_def)
  from 1 2 3 show ?thesis
    by (simp add: timeout_callback_noop [OF n] script_onload_noop [OF n]
        script_onerror_noop [OF n])
qed

section \<open>The loader: a descriptor without a URL\<close>










text \<open>
  The whole load of a configuration that has a name only, on the page of the section
  \<open>news\<close>: every check passes, and the missing URL ends the load as ignored.
\<close>

lemma load_without_url:
  "effects (snd (load (bare_config ''widget'') news_loader)) =
     [TimerSet 0 0 0 3000,
      HookCalled ''preloadFn'' ''widget'',
      HookCalled ''ignoreFn'' ''widget'',
      Published ''plugin.widget.ignore'' ''widget'' ''ignore'' (Some ''No URL provided''),
      Published ''plugin.widget.complete'' ''widget'' ''complete'' None,
      Resolved 0
        \<lparr>res_status = Ignore, res_name = ''widget'', res_reason = Some ''No URL provided'',
         res_error = None,
         res_performance =
           \<lparr>perf_status = Ignore, perf_init = 0, perf_requested = 0, perf_received = 0,
            perf_preload = 0, perf_error = - 1, perf_timeout = - 1, perf_latency = 0\<rparr>\<rparr>]"
  by (simp add: loader_eval news_loader_def Let_def)

section \<open>The loader: the URL override\<close>

lemma evaluateDimensions_no_rules:
  "rules inc = Map.empty \<Longrightarrow> rules exc = Map.empty \<Longrightarrow>
   evaluateDimensions inc exc dc ctx = \<lparr>matched = True, reason = ''All targeting rules passed''\<rparr>"
  by (induction ctx) (auto simp: Let_def)

lemma evaluateTargeting_empty:
  "matched (evaluateTargeting (normalizeTargeting (Some empty_targeting))
             (normalizeTargeting (Some empty_targeting)) ctx dc)"
  by (simp add: evaluateTargeting_def normalizeTargeting_def empty_targeting_def
      evaluateDimensions_no_rules)

lemma checkUrlOverride_enabled:
  "nm \<in> set (fst (getUrlOverrides (Some (win s)))) \<Longrightarrow> checkUrlOverride s nm = (True, True)"
  by (auto simp: checkUrlOverride_def split: prod.splits)

lemma applyUrlOverride_enabled:
  "name (heap s ! r) \<in> set (fst (getUrlOverrides (Some (win s)))) \<Longrightarrow>
   applyUrlOverride r s =
     publishEvent (name (heap s ! r)) ''override.enabled'' None
       (modify r (\<lambda>p. p\<lparr>p_include := empty_targeting, p_exclude := empty_targeting,
                        domains := [''all''], consentState := [''all'']\<rparr>) s)"
  by (simp add: applyUrlOverride_def checkUrlOverride_enabled)

lemma other_publishEvent [simp]:
  "experiments (publishEvent nm ev rsn s) = experiments s"
  "consentCheck (publishEvent nm ev rsn s) = consentCheck s"
  "win (publishEvent nm ev rsn s) = win s"
  "dimensions (publishEvent nm ev rsn s) = dimensions s"
  "dimensionConfig (publishEvent nm ev rsn s) = dimensionConfig s"
  by (simp_all add: publishEvent_def emit_def)

lemma other_modify [simp]:
  "experiments (modify r f s) = experiments s"
  "consentCheck (modify r f s) = consentCheck s"
  "win (modify r f s) = win s"
  "dimensions (modify r f s) = dimensions s"
  "dimensionConfig (modify r f s) = dimensionConfig s"
  by (simp_all add: modify_def)

lemma load_checks_enabled:
  assumes en: "name (heap s ! r) \<in> set (fst (getUrlOverrides (Some (win s))))"
    and r: "r < length (heap s)" and act: "active (heap s ! r)"
  shows "load_checks r resolve s =
     (let s2 = applyExperiments r (applyUrlOverride r s);
          result = evaluateTargeting (normalizeTargeting (Some (p_include (heap s2 ! r))))
                     (normalizeTargeting (Some (p_exclude (heap s2 ! r))))
                     (loaderGetContext (dimensions s2)) (dimensionConfig s2)
      in if \<not> matched result then handleIgnore r (reason result) resolve s2
         else executeLoad r resolve s2)"
  using r act
  by (simp add: load_checks_def applyUrlOverride_enabled [OF en] Let_def checkConsent_def
      matchesDomain_def normalizeTargetingConfig_def)

lemma active_applyUrlOverride_enabled:
  "name (heap s ! r) \<in> set (fst (getUrlOverrides (Some (win s)))) \<Longrightarrow> r < length (heap s) \<Longrightarrow>
   active (heap (applyUrlOverride r s) ! r) = active (heap s ! r)"
  by (simp add: applyUrlOverride_enabled)

text \<open>
  Claim C4, as the code has it. Let the URL enable the name of a descriptor, whatever
  the list of disabled names is. Then the override block empties \<open>include\<close> and
  \<open>exclude\<close>, sets \<open>domains\<close> and \<open>consentState\<close> to \<open>['all']\<close> and publishes
  \<open>override.enabled\<close>. The activity check comes after the block and still applies: a
  descriptor that is not active resolves as \<open>inactive\<close>. An active descriptor passes
  the consent check and the domain check whatever the consent oracle and the host
  are, and it reaches \<open>executeLoad\<close> with no experiment manager attached, and with one
  whenever the experiments leave \<open>include\<close> and \<open>exclude\<close> empty.
\<close>

theorem url_enable_bypasses_gates:
  assumes en: "name (heap s ! r) \<in> set (fst (getUrlOverrides (Some (win s))))"
    and r: "r < length (heap s)"
  shows "applyUrlOverride r s =
           publishEvent (name (heap s ! r)) ''override.enabled'' None
             (modify r (\<lambda>p. p\<lparr>p_include := empty_targeting, p_exclude := empty_targeting,
                              domains := [''all''], consentState := [''all'']\<rparr>) s)
         \<and> (\<not> active (heap s ! r) \<longrightarrow>
              load_checks r resolve s = (Normal, handleInactive r resolve (applyUrlOverride r s)))
         \<and> (active (heap s ! r) \<and> experiments s = None \<longrightarrow>
              load_checks r resolve s = executeLoad r resolve (applyUrlOverride r s))
         \<and> (active (heap s ! r)
              \<and> p_include (heap (applyExperiments r (applyUrlOverride r s)) ! r) = empty_targeting
              \<and> p_exclude (heap (applyExperiments r (applyUrlOverride r s)) ! r) = empty_targeting
              \<longrightarrow>
              load_checks r resolve s =
                executeLoad r resolve (applyExperiments r (applyUrlOverride r s)))"
proof (intro conjI impI)
  show "applyUrlOverride r s =
           publishEvent (name (heap s ! r)) ''override.enabled'' None
             (modify r (\<lambda>p. p\<lparr>p_include := empty_targeting, p_exclude := empty_targeting,
                              domains := [''all''], consentState := [''all'']\<rparr>) s)"
    by (rule applyUrlOverride_enabled [OF en])
next
  assume "\<not> active (heap s ! r)"
  then have "\<not> active (heap (applyUrlOverride r s) ! r)"
    by (simp add: active_applyUrlOverride_enabled [OF en r])
  then show "load_checks r resolve s = (Normal, handleInactive r resolve (applyUrlOverride r s))"
    by (simp add: load_checks_def Let_def)
next
  assume a: "active (heap s ! r) \<and> experiments s = None"
  then have act: "active (heap s ! r)" and none: "experiments s = None" by simp_all
  have ex: "applyExperiments r (applyUrlOverride r s) = applyUrlOverride r s"
    by (simp add: applyExperiments_def applyUrlOverride_enabled [OF en] none)
  have inc: "p_include (heap (applyUrlOverride r s) ! r) = empty_targeting"
    and exc: "p_exclude (heap (applyUrlOverride r s) ! r) = empty_targeting"
    using r by (simp_all add: applyUrlOverride_enabled [OF en])
  show "load_checks r resolve s = executeLoad r resolve (applyUrlOverride r s)"
    by (simp add: load_checks_enabled [OF en r act] ex inc exc evaluateTargeting_empty Let_def)
next
  assume a: "active (heap s ! r)
              \<and> p_include (heap (applyExperiments r (applyUrlOverride r s)) ! r) = empty_targeting
              \<and> p_exclude (heap (applyExperiments r (applyUrlOverride r s)) ! r) = empty_targeting"
  then have act: "active (heap s ! r)" by simp
  from a show "load_checks r resolve s =
                executeLoad r resolve (applyExperiments r (applyUrlOverride r s))"
    by (simp add: load_checks_enabled [OF en r act] evaluateTargeting_empty Let_def)
qed

lemmas loader_eval2 = loader_eval forced_loader_def register_def analytics_def
  blocked_analytics_def all_pages_def

theorem url_enable_bypasses_gates_witness:
  "name (heap (snd (register blocked_analytics forced_loader)) ! 0)
     \<in> set (fst (getUrlOverrides (Some (win (snd (register blocked_analytics forced_loader))))))
   \<and> 0 < length (heap (snd (register blocked_analytics forced_loader)))
   \<and> active (heap (snd (register blocked_analytics forced_loader)) ! 0)
   \<and> \<not> checkConsent (snd (register blocked_analytics forced_loader))
          (Some (consentState (heap (snd (register blocked_analytics forced_loader)) ! 0)))
   \<and> \<not> matchesDomain (Some (domains (heap (snd (register blocked_analytics forced_loader)) ! 0)))
          None (Some (host (win (snd (register blocked_analytics forced_loader)))))
   \<and> load_checks 0 0 (snd (register blocked_analytics forced_loader))
       = executeLoad 0 0 (applyUrlOverride 0 (snd (register blocked_analytics forced_loader)))
   \<and> status (heap (snd (load_checks 0 0 (snd (register blocked_analytics forced_loader)))) ! 0)
       = Requested
   \<and> load_checks 0 0 (snd (register blocked_analytics (setExperiments manager_10 forced_loader)))
       = executeLoad 0 0 (applyExperiments 0 (applyUrlOverride 0
           (snd (register blocked_analytics (setExperiments manager_10 forced_loader)))))
   \<and> url (heap (snd (load_checks 0 0
           (snd (register blocked_analytics (setExperiments manager_10 forced_loader))))) ! 0)
       = Some ''https://cdn.example.com/analytics-v2.min.js''
   \<and> name (heap (snd (register (blocked_analytics\<lparr>c_active := Some False\<rparr>) forced_loader)) ! 0)
     \<in> set (fst (getUrlOverrides (Some (win
           (snd (register (blocked_analytics\<lparr>c_active := Some False\<rparr>) forced_loader))))))
   \<and> \<not> active (heap (snd (register (blocked_analytics\<lparr>c_active := Some False\<rparr>)
           forced_loader)) ! 0)
   \<and> load_checks 0 0 (snd (register (blocked_analytics\<lparr>c_active := Some False\<rparr>) forced_loader))
       = (Normal, handleInactive 0 0 (applyUrlOverride 0
           (snd (register (blocked_analytics\<lparr>c_active := Some False\<rparr>) forced_loader))))
   \<and> status (heap (snd (load_checks 0 0
           (snd (register (blocked_analytics\<lparr>c_active := Some False\<rparr>) forced_loader)))) ! 0)
       = Inactive"
proof -
  let ?s = "snd (register blocked_analytics forced_loader)"
  let ?t = "snd (register blocked_analytics (setExperiments manager_10 forced_loader))"
  let ?u = "snd (register (blocked_analytics\<lparr>c_active := Some False\<rparr>) forced_loader)"
  note ev = loader_eval2 setExperiments_def manager_10_eq experiments_apply_def apply_entry_def
    isInExperiment_def targetingMatches_def use_analytics_v2_def news_page_def Let_def
  have en2: "name (heap ?t ! 0) \<in> set (fst (getUrlOverrides (Some (win ?t))))"
    by (simp add: loader_eval2 setExperiments_def Let_def)
  have r2: "0 < length (heap ?t)" by (simp add: loader_eval2 setExperiments_def Let_def)
  have act2: "active (heap ?t ! 0)" by (simp add: loader_eval2 setExperiments_def Let_def)
  have tg: "p_include (heap (applyExperiments 0 (applyUrlOverride 0 ?t)) ! 0) = empty_targeting"
    "p_exclude (heap (applyExperiments 0 (applyUrlOverride 0 ?t)) ! 0) = empty_targeting"
    by (simp_all add: ev)
  from url_enable_bypasses_gates [OF en2 r2, of 0] act2 tg
  have eq2: "load_checks 0 0 ?t = executeLoad 0 0 (applyExperiments 0 (applyUrlOverride 0 ?t))"
    by blast
  have v2: "url (heap (snd (executeLoad 0 0 (applyExperiments 0 (applyUrlOverride 0 ?t)))) ! 0)
          = Some ''https://cdn.example.com/analytics-v2.min.js''"
    by (simp add: ev)
  have en: "name (heap ?s ! 0) \<in> set (fst (getUrlOverrides (Some (win ?s))))"
    by (simp add: loader_eval2 Let_def)
  have r: "0 < length (heap ?s)" by (simp add: loader_eval2 Let_def)
  have act: "active (heap ?s ! 0)" by (simp add: loader_eval2 Let_def)
  have none: "experiments ?s = None" by (simp add: loader_eval2 Let_def)
  have gates: "\<not> checkConsent ?s (Some (consentState (heap ?s ! 0)))"
    "\<not> matchesDomain (Some (domains (heap ?s ! 0))) None (Some (host (win ?s)))"
    by (simp_all add: loader_eval2 Let_def)
  from url_enable_bypasses_gates [OF en r, of 0] act none
  have eq: "load_checks 0 0 ?s = executeLoad 0 0 (applyUrlOverride 0 ?s)" by blast
  have rq: "status (heap (snd (executeLoad 0 0 (applyUrlOverride 0 ?s))) ! 0) = Requested"
    by (simp add: loader_eval2 Let_def)
  have en3: "name (heap ?u ! 0) \<in> set (fst (getUrlOverrides (Some (win ?u))))"
    by (simp add: loader_eval2 Let_def)
  have r3: "0 < length (heap ?u)" by (simp add: loader_eval2 Let_def)
  have act3: "\<not> active (heap ?u ! 0)" by (simp add: loader_eval2 Let_def)
  from url_enable_bypasses_gates [OF en3 r3, of 0] act3
  have eq3: "load_checks 0 0 ?u = (Normal, handleInactive 0 0 (applyUrlOverride 0 ?u))"
    by blast
  have ia: "status (heap (handleInactive 0 0 (applyUrlOverride 0 ?u)) ! 0) = Inactive"
    by (simp add: loader_eval2 Let_def)
  from en r act gates eq rq eq2 v2 en3 act3 eq3 ia show ?thesis by simp
qed

text \<open>
  Against claim C4 as the specification states it. With
  \<open>?pluginDisable=all&pluginEnable=analytics\<close>, the plugin \<open>analytics\<close> configured with
  \<open>active: false\<close> does not reach \<open>executeLoad\<close>: it resolves as \<open>inactive\<close>, no timer
  is armed and no script element is appended.
\<close>

theorem url_enable_does_not_force_load:
  "checkUrlOverride forced_loader ''analytics'' = (True, True)
   \<and> effects (snd (load (analytics\<lparr>c_active := Some False\<rparr>) forced_loader)) =
       [Published ''plugin.analytics.override.enabled'' ''analytics'' ''override.enabled'' None,
        Published ''plugin.analytics.inactive'' ''analytics'' ''inactive'' None,
        Published ''plugin.analytics.complete'' ''analytics'' ''complete'' None,
        Resolved 0
          \<lparr>res_status = Inactive, res_name = ''analytics'', res_reason = None, res_error = None,
           res_performance =
             \<lparr>perf_status = Inactive, perf_init = 0, perf_requested = 0, perf_received = 0,
              perf_preload = 0, perf_error = - 1, perf_timeout = - 1, perf_latency = 0\<rparr>\<rparr>]"
  by (simp add: loader_eval2 Let_def)

text \<open>
  The experiments come after the override block. With the same URL, an experiment
  that narrows \<open>analytics\<close> to the section \<open>sport\<close> has the plugin ignored on a page of
  the section \<open>news\<close>, although the comment of the block reads
  \<open>Force enable - bypass all targeting\<close>.
\<close>

lemma experiment_targeting_survives_override:
  "effects (snd (load analytics (setExperiments manager_narrow forced_loader))) =
       [Published ''plugin.analytics.override.enabled'' ''analytics'' ''override.enabled'' None,
        HookCalled ''ignoreFn'' ''analytics'',
        Published ''plugin.analytics.ignore'' ''analytics'' ''ignore''
          (Some ''Not included by section: news''),
        Published ''plugin.analytics.complete'' ''analytics'' ''complete'' None,
        Resolved 0
          \<lparr>res_status = Ignore, res_name = ''analytics'',
           res_reason = Some ''Not included by section: news'', res_error = None,
           res_performance =
             \<lparr>perf_status = Ignore, perf_init = 0, perf_requested = 0, perf_received = 0,
              perf_preload = 0, perf_error = - 1, perf_timeout = - 1, perf_latency = 0\<rparr>\<rparr>]"
proof -
  have m: "manager_narrow =
     \<lparr>mgr_active = True, testgroup = 10, getContext = news_page, mgr_dimensionConfig = Map.empty,
      registry = [(''sport_only_test'',
         \<lparr>exp_id = ''sport_only_test'', exp_active = True, testRange = (0, 49),
          exp_plugin = Some ''analytics'', exp_include = Some empty_targeting,
          exp_exclude = Some empty_targeting, exp_apply = sport_only\<rparr>)],
      applied = [], eligible = []\<rparr>"
    by (simp add: manager_narrow_def register_experiment_def new_manager_def sport_only_test_def
        Let_def)
  show ?thesis
    by (simp add: loader_eval2 setExperiments_def m experiments_apply_def apply_entry_def
        isInExperiment_def targetingMatches_def sport_only_def news_page_def Let_def
        toLowerCase_def toLowerChar_def)
qed


section \<open>The loader: one descriptor for a name\<close>

lemma length_heap_handleInactive [simp]:
  "length (heap (handleInactive r resolve s)) = length (heap s)"
  by (simp add: handleInactive_def Let_def)

lemma length_heap_handleIgnore [simp]:
  "length (heap (snd (handleIgnore r rsn resolve s))) = length (heap s)"
  by (simp add: handleIgnore_def Let_def split: hook.splits)

lemma length_heap_executeLoad [simp]:
  "length (heap (snd (executeLoad r resolve s))) = length (heap s)"
  by (simp add: executeLoad_def Let_def split: hook.splits)

lemma length_heap_applyUrlOverride [simp]:
  "length (heap (applyUrlOverride r s)) = length (heap s)"
  by (simp add: applyUrlOverride_def Let_def)

lemma length_heap_applyExperiments [simp]:
  "length (heap (applyExperiments r s)) = length (heap s)"
  by (simp add: applyExperiments_def split: option.splits prod.splits)

lemma length_heap_load_checks [simp]:
  "length (heap (snd (load_checks r resolve s))) = length (heap s)"
  by (simp add: load_checks_def Let_def publishEvent_def emit_def)

lemma load_known:
  "plugins s (c_name config) = Some r \<Longrightarrow>
   load config s =
     (case load_checks r (promises s)
             (s\<lparr>promises := Suc (promises s),
                plugins := (plugins s)(name (heap s ! r) \<mapsto> r)\<rparr>) of
        (Normal, s') \<Rightarrow> (promises s, s')
      | (Thrown, s') \<Rightarrow> (promises s, emit (Rejected (promises s)) s'))"
  by (simp add: load_def Let_def)

lemma same_plugins: "plugins s k = Some r \<Longrightarrow> s\<lparr>plugins := (plugins s)(k \<mapsto> r)\<rparr> = s"
  by (simp add: fun_upd_idem)

text \<open>
  Claim C8, as the code has it. \<open>load\<close> with a name that the \<open>plugins\<close> map knows
  goes on with the stored descriptor: nothing of the submitted configuration but the
  name has an effect, no descriptor is created, and the load is the sequence of
  checks on the stored descriptor in the state it is in. \<open>register\<close> always creates a
  descriptor from the submitted configuration and stores it under the name, in place
  of the one that may be there.
\<close>

theorem load_reuses_register_replaces:
  "(plugins s (c_name config) = Some r \<and> c_name config' = c_name config \<longrightarrow>
      load config' s = load config s)
   \<and> (plugins s (c_name config) = Some r \<longrightarrow>
      length (heap (snd (load config s))) = length (heap s))
   \<and> (plugins s (c_name config) = Some r \<and> name (heap s ! r) = c_name config \<longrightarrow>
      load config s =
        (case load_checks r (promises s) (s\<lparr>promises := Suc (promises s)\<rparr>) of
           (Normal, s') \<Rightarrow> (promises s, s')
         | (Thrown, s') \<Rightarrow> (promises s, emit (Rejected (promises s)) s')))
   \<and> fst (register config s) = length (heap s)
   \<and> plugins (snd (register config s)) (c_name config) = Some (length (heap s))
   \<and> heap (snd (register config s)) =
       heap s @ [normalizePluginConfig (eventPrefix s) (now s) config]"
proof (intro conjI impI)
  assume a: "plugins s (c_name config) = Some r \<and> c_name config' = c_name config"
  then have "plugins s (c_name config') = Some r" by simp
  from load_known [OF this] load_known [of s config r] a
  show "load config' s = load config s" by simp
next
  assume a: "plugins s (c_name config) = Some r"
  let ?s0 = "s\<lparr>promises := Suc (promises s),
               plugins := (plugins s)(name (heap s ! r) \<mapsto> r)\<rparr>"
  obtain c s' where lc: "load_checks r (promises s) ?s0 = (c, s')"
    by (cases "load_checks r (promises s) ?s0")
  have "length (heap (snd (load_checks r (promises s) ?s0))) = length (heap ?s0)"
    by (rule length_heap_load_checks)
  with lc have "length (heap s') = length (heap s)" by simp
  with lc show "length (heap (snd (load config s))) = length (heap s)"
    by (cases c) (simp_all add: load_known [OF a] emit_def)
next
  assume a: "plugins s (c_name config) = Some r \<and> name (heap s ! r) = c_name config"
  then have p: "plugins s (name (heap s ! r)) = Some r" by simp
  have "s\<lparr>promises := Suc (promises s), plugins := (plugins s)(name (heap s ! r) \<mapsto> r)\<rparr>
        = s\<lparr>promises := Suc (promises s)\<rparr>"
    using p by (simp add: fun_upd_idem)
  with a show "load config s =
        (case load_checks r (promises s) (s\<lparr>promises := Suc (promises s)\<rparr>) of
           (Normal, s') \<Rightarrow> (promises s, s')
         | (Thrown, s') \<Rightarrow> (promises s, emit (Rejected (promises s)) s'))"
    by (simp add: load_known [of s config r])
next
  show "fst (register config s) = length (heap s)"
    by (simp add: register_def Let_def)
  show "plugins (snd (register config s)) (c_name config) = Some (length (heap s))"
    by (simp add: register_def Let_def normalizePluginConfig_def)
  show "heap (snd (register config s)) =
       heap s @ [normalizePluginConfig (eventPrefix s) (now s) config]"
    by (simp add: register_def Let_def)
qed

lemmas loader_eval3 = loader_eval2 news_loader_def

lemma loaded_analytics:
  "plugins (snd (load analytics news_loader)) ''analytics'' = Some 0"
  "name (heap (snd (load analytics news_loader)) ! 0) = ''analytics''"
  by (simp_all add: loader_eval3 Let_def)

theorem load_reuses_register_replaces_witness:
  "plugins (snd (load analytics news_loader)) (c_name analytics) = Some 0
   \<and> c_name (bare_config ''analytics'') = c_name analytics
   \<and> name (heap (snd (load analytics news_loader)) ! 0) = c_name analytics
   \<and> load (bare_config ''analytics'') (snd (load analytics news_loader))
       = load analytics (snd (load analytics news_loader))
   \<and> length (heap (snd (load analytics (snd (load analytics news_loader))))) = 1
   \<and> fst (register analytics (snd (load analytics news_loader))) = 1
   \<and> plugins (snd (register analytics (snd (load analytics news_loader)))) ''analytics'' = Some 1"
proof -
  let ?s = "snd (load analytics news_loader)"
  have n: "c_name analytics = ''analytics''" "c_name (bare_config ''analytics'') = ''analytics''"
    by (simp_all add: analytics_def bare_config_def)
  have l: "length (heap ?s) = 1" using load_analytics_requested by simp
  have h: "plugins ?s (c_name analytics) = Some 0"
    "c_name (bare_config ''analytics'') = c_name analytics"
    "name (heap ?s ! 0) = c_name analytics"
    using n loaded_analytics by simp_all
  note t = load_reuses_register_replaces [of ?s analytics 0 "bare_config ''analytics''"]
  from t h have a: "load (bare_config ''analytics'') ?s = load analytics ?s" by blast
  from t h have b: "length (heap (snd (load analytics ?s))) = length (heap ?s)" by blast
  from t have c: "fst (register analytics ?s) = length (heap ?s)"
    and d: "plugins (snd (register analytics ?s)) (c_name analytics) = Some (length (heap ?s))"
    by blast+
  from h a b c d l n show ?thesis by simp
qed

text \<open>
  Against claim C8 as the specification states it. After the plugin \<open>analytics\<close> has
  loaded, \<open>register\<close> with the same configuration stores a second descriptor of this
  name with the status \<open>init\<close>; the first one keeps the status \<open>loaded\<close>.
\<close>

theorem register_stores_fresh_descriptor:
  "status (heap (snd (script_onload 0 0 (snd (load analytics news_loader)))) ! 0) = Loaded
   \<and> plugins (snd (register analytics
         (snd (script_onload 0 0 (snd (load analytics news_loader)))))) ''analytics'' = Some 1
   \<and> status (heap (snd (register analytics
         (snd (script_onload 0 0 (snd (load analytics news_loader)))))) ! 1) = Init
   \<and> name (heap (snd (register analytics
         (snd (script_onload 0 0 (snd (load analytics news_loader)))))) ! 1) = ''analytics''
   \<and> status (heap (snd (register analytics
         (snd (script_onload 0 0 (snd (load analytics news_loader)))))) ! 0) = Loaded
   \<and> name (heap (snd (register analytics
         (snd (script_onload 0 0 (snd (load analytics news_loader)))))) ! 0) = ''analytics''"
  by (simp add: loader_eval3 script_onload_def Let_def)


section \<open>The loader: the consent queue\<close>

text \<open>
  \<open>processConsentQueue\<close> leaves the experiment manager as it is, whatever the queue
  holds; and while the consent check refuses every entry, it leaves the whole loader
  as it is, the queue included.
\<close>

lemma experiments_emit [simp]: "experiments (emit e s) = experiments s"
  by (simp add: emit_def)

lemma experiments_updateMetrics [simp]: "experiments (updateMetrics r s) = experiments s"
  by (simp add: updateMetrics_def)

lemma experiments_handleIgnore [simp]:
  "experiments (snd (handleIgnore r rsn resolve s)) = experiments s"
  by (simp add: handleIgnore_def Let_def split: hook.splits)

lemma experiments_executeLoad [simp]:
  "experiments (snd (executeLoad r resolve s)) = experiments s"
  by (simp add: executeLoad_def Let_def split: hook.splits)

lemma experiments_process_entries:
  "experiments (snd (process_entries q s)) = experiments s"
proof (induction q arbitrary: s)
  case Nil
  show ?case by simp
next
  case (Cons x q)
  obtain r resolve where x: "x = (r, resolve)" by (cases x)
  show ?case
  proof (cases "checkConsent s (Some (consentState (heap s ! r)))")
    case False
    then show ?thesis using x Cons.IH by simp
  next
    case True
    let ?step = "if matched (evaluateTargeting
                      (fst (normalizeTargetingConfig (Some (p_include (heap s ! r)))
                             (Some (p_exclude (heap s ! r)))))
                      (snd (normalizeTargetingConfig (Some (p_include (heap s ! r)))
                             (Some (p_exclude (heap s ! r)))))
                      (loaderGetContext (dimensions s)) (dimensionConfig s))
                    \<and> matchesDomain (Some (domains (heap s ! r))) None (Some (host (win s)))
                 then executeLoad r resolve s
                 else handleIgnore r
                        (if reason (evaluateTargeting
                      (fst (normalizeTargetingConfig (Some (p_include (heap s ! r)))
                             (Some (p_exclude (heap s ! r)))))
                      (snd (normalizeTargetingConfig (Some (p_include (heap s ! r)))
                             (Some (p_exclude (heap s ! r)))))
                      (loaderGetContext (dimensions s)) (dimensionConfig s)) \<noteq> []
                         then reason (evaluateTargeting
                      (fst (normalizeTargetingConfig (Some (p_include (heap s ! r)))
                             (Some (p_exclude (heap s ! r)))))
                      (snd (normalizeTargetingConfig (Some (p_include (heap s ! r)))
                             (Some (p_exclude (heap s ! r)))))
                      (loaderGetContext (dimensions s)) (dimensionConfig s))
                         else ''Domain mismatch'')
                        resolve s"
    obtain c s' where st: "?step = (c, s')" by (cases ?step)
    have e: "experiments s' = experiments s"
    proof -
      have "experiments (snd ?step) = experiments s" by simp
      with st show ?thesis by simp
    qed
    show ?thesis
    proof (cases c)
      case Normal
      with True x st have "process_entries (x # q) s = process_entries q s'"
        by (simp add: Let_def)
      with Cons.IH [of s'] e show ?thesis by simp
    next
      case Thrown
      with True x st have "process_entries (x # q) s = (Thrown, s')"
        by (simp add: Let_def)
      with e show ?thesis by simp
    qed
  qed
qed

lemma processConsentQueue_keeps_experiments:
  "experiments (snd (processConsentQueue s)) = experiments s"
  by (simp add: processConsentQueue_def experiments_process_entries)

lemma checkConsent_queue [simp]:
  "checkConsent (s\<lparr>consentQueue := q\<rparr>) rs = checkConsent s rs"
  by (simp add: checkConsent_def split: option.splits)

lemma process_entries_denied:
  "\<forall>entry \<in> set q. \<not> checkConsent s (Some (consentState (heap s ! fst entry))) \<Longrightarrow>
   process_entries q (s\<lparr>consentQueue := acc\<rparr>) = (Normal, s\<lparr>consentQueue := acc @ q\<rparr>)"
  by (induction q arbitrary: acc) auto

lemma processConsentQueue_denied:
  "\<forall>entry \<in> set (consentQueue s).
      \<not> checkConsent s (Some (consentState (heap s ! fst entry))) \<Longrightarrow>
   processConsentQueue s = (Normal, s)"
  by (simp add: processConsentQueue_def process_entries_denied)

lemma consent_loader_eq:
  "consent_loader =
     \<lparr>dimensions = [(''section'', DimFn (Returns (JStr ''news'')))], eventPrefix = ''plugin'',
      consentCheck = (\<lambda>requiredStates. False), dimensionConfig = Map.empty,
      experiments = Some manager_10, plugins = Map.empty, metrics = Map.empty,
      consentQueue = [], heap = [],
      win = \<lparr>host = ''example.com'', pluginEnable = None, pluginDisable = None\<rparr>,
      now = 0, effects = [], promises = 0, timers = 0\<rparr>"
  by (simp add: consent_loader_def setExperiments_def new_loader_def)

lemmas loader_eval4 = loader_eval3 consent_loader_eq grant_consent_def gated_analytics_def
  processConsentQueue_def experiments_apply_def apply_entry_def isInExperiment_def
  targetingMatches_def use_analytics_v2_def news_page_def manager_10_eq

text \<open>
  Claim C2, on the plugin \<open>analytics\<close> behind the consent state \<open>analytics\<close>, for a
  user of bucket 10 and the experiment \<open>analytics_v2_test\<close> of the range \<open>[0, 24]\<close>.
  While the consent check refuses, \<open>load\<close> puts the descriptor on the queue. After
  the consent check has turned, \<open>processConsentQueue\<close> requests the script of the
  URL as configured and the manager has applied no experiment; the same \<open>load\<close> under
  a consent check that grants applies the experiment and requests the URL it sets.
\<close>

theorem consent_queue_skips_experiments:
  "consentQueue (snd (load gated_analytics consent_loader)) = [(0, 0)]
   \<and> fst (processConsentQueue (grant_consent (snd (load gated_analytics consent_loader)))) = Normal
   \<and> status (heap (snd (processConsentQueue
         (grant_consent (snd (load gated_analytics consent_loader))))) ! 0) = Requested
   \<and> url (heap (snd (processConsentQueue
         (grant_consent (snd (load gated_analytics consent_loader))))) ! 0)
       = Some ''https://cdn.jsdelivr.net/npm/js-cookie@3.0.5/dist/js.cookie.min.js''
   \<and> map_option applied (experiments (snd (processConsentQueue
         (grant_consent (snd (load gated_analytics consent_loader)))))) = Some []
   \<and> status (heap (snd (load gated_analytics (grant_consent consent_loader))) ! 0) = Requested
   \<and> url (heap (snd (load gated_analytics (grant_consent consent_loader))) ! 0)
       = Some ''https://cdn.example.com/analytics-v2.min.js''
   \<and> map_option applied (experiments (snd (load gated_analytics (grant_consent consent_loader))))
       = Some [''analytics_v2_test'']"
  by (simp add: loader_eval4 Let_def)


end
